theory Spec2Isabelle
  imports Complex_Main
begin

section \<open>Strings as Python uses them\<close>

text \<open>
  Paths and messages are 8-bit strings. \<open>lower_char\<close> is Python's \<^verbatim>\<open>str.lower\<close> on
  ASCII text: the letters A..Z go to a..z, every other character stays.
\<close>

definition lower_char :: "char \<Rightarrow> char" where
  "lower_char c =
     (let n = of_char c :: nat in if 65 \<le> n \<and> n \<le> 90 then char_of (n + 32) else c)"

definition lower :: "string \<Rightarrow> string" where
  "lower s = map lower_char s"

text \<open>The newline and the single quote.\<close>

definition nl :: string where
  "nl = [CHR 0x0A]"

definition sq :: string where
  "sq = [CHR 0x27]"

text \<open>\<^verbatim>\<open>s.startswith(p)\<close> and the substring test \<^verbatim>\<open>p in s\<close>.\<close>

fun starts_with :: "string \<Rightarrow> string \<Rightarrow> bool" where
  "starts_with [] s = True"
| "starts_with (p # ps) [] = False"
| "starts_with (p # ps) (c # cs) = (p = c \<and> starts_with ps cs)"

fun contains :: "string \<Rightarrow> string \<Rightarrow> bool" where
  "contains p [] = (p = [])"
| "contains p (c # cs) = (starts_with p (c # cs) \<or> contains p cs)"

text \<open>\<^verbatim>\<open>s.split(ch)\<close>: the pieces between the occurrences of one character; never empty.\<close>

fun split_on :: "char \<Rightarrow> string \<Rightarrow> string list" where
  "split_on ch [] = [[]]"
| "split_on ch (c # cs) =
     (if c = ch then [] # split_on ch cs
      else (case split_on ch cs of
              [] \<Rightarrow> [[c]]
            | w # ws \<Rightarrow> (c # w) # ws))"

section \<open>Regular expressions: \<^verbatim>\<open>re.search(pattern, text, re.IGNORECASE)\<close>\<close>

text \<open>
  The patterns of the classifier use literals, \<^verbatim>\<open>.\<close>, \<^verbatim>\<open>.*\<close>, \<^verbatim>\<open>\d+\<close> and one
  alternation. A literal matches without regard to case; \<^verbatim>\<open>.\<close> matches every character
  but the newline; \<^verbatim>\<open>\d\<close> matches a decimal digit.
\<close>

datatype rx =
    Never
  | Empty
  | Lit char
  | AnyChar
  | Digit
  | Then rx rx
  | Either rx rx
  | Many rx

definition many1 :: "rx \<Rightarrow> rx" where
  "many1 r = Then r (Many r)"

fun text_rx :: "string \<Rightarrow> rx" where
  "text_rx [] = Empty"
| "text_rx [c] = Lit c"
| "text_rx (c # cs) = Then (Lit c) (text_rx cs)"

fun seq_rx :: "rx list \<Rightarrow> rx" where
  "seq_rx [] = Empty"
| "seq_rx [r] = r"
| "seq_rx (r # rs) = Then r (seq_rx rs)"

fun accepts_empty :: "rx \<Rightarrow> bool" where
  "accepts_empty Never = False"
| "accepts_empty Empty = True"
| "accepts_empty (Lit c) = False"
| "accepts_empty AnyChar = False"
| "accepts_empty Digit = False"
| "accepts_empty (Then r s) = (accepts_empty r \<and> accepts_empty s)"
| "accepts_empty (Either r s) = (accepts_empty r \<or> accepts_empty s)"
| "accepts_empty (Many r) = True"

definition is_digit :: "char \<Rightarrow> bool" where
  "is_digit c = (let n = of_char c :: nat in 48 \<le> n \<and> n \<le> 57)"

definition then_rx :: "rx \<Rightarrow> rx \<Rightarrow> rx" where
  "then_rx r s = (if r = Never \<or> s = Never then Never else if r = Empty then s else Then r s)"

definition either_rx :: "rx \<Rightarrow> rx \<Rightarrow> rx" where
  "either_rx r s = (if r = Never then s else if s = Never then r else Either r s)"

text \<open>What is left of a pattern once it has read the character \<open>c\<close>.\<close>

fun after :: "char \<Rightarrow> rx \<Rightarrow> rx" where
  "after c Never = Never"
| "after c Empty = Never"
| "after c (Lit d) = (if lower_char c = lower_char d then Empty else Never)"
| "after c AnyChar = (if c = CHR 0x0A then Never else Empty)"
| "after c Digit = (if is_digit c then Empty else Never)"
| "after c (Then r s) =
     (if accepts_empty r then either_rx (then_rx (after c r) s) (after c s)
      else then_rx (after c r) s)"
| "after c (Either r s) = either_rx (after c r) (after c s)"
| "after c (Many r) = then_rx (after c r) (Many r)"

text \<open>\<^verbatim>\<open>re.match\<close>: some prefix of the text matches.\<close>

fun re_match :: "rx \<Rightarrow> string \<Rightarrow> bool" where
  "re_match r [] = accepts_empty r"
| "re_match r (c # cs) = (accepts_empty r \<or> (r \<noteq> Never \<and> re_match (after c r) cs))"

text \<open>\<^verbatim>\<open>re.search\<close>: a match starts at some position of the text.\<close>

fun re_search :: "rx \<Rightarrow> string \<Rightarrow> bool" where
  "re_search r [] = re_match r []"
| "re_search r (c # cs) = (re_match r (c # cs) \<or> re_search r cs)"

text \<open>\<^verbatim>\<open>any(re.search(pattern, text, re.IGNORECASE) for pattern in patterns)\<close>\<close>

definition any_search :: "rx list \<Rightarrow> string \<Rightarrow> bool" where
  "any_search patterns msg = list_ex (\<lambda>pattern. re_search pattern msg) patterns"

section \<open>The error classifier (error\_distributor.py)\<close>

datatype ErrorType =
  TYPESCRIPT | REACT | TEST | LINT | BUILD | RUNTIME | DEPENDENCY | GENERAL

datatype ErrorSeverity = CRITICAL | HIGH | MEDIUM | LOW

text \<open>\<^verbatim>\<open>severity.value\<close>\<close>

fun severity_value :: "ErrorSeverity \<Rightarrow> int" where
  "severity_value CRITICAL = 1"
| "severity_value HIGH = 2"
| "severity_value MEDIUM = 3"
| "severity_value LOW = 4"

record ErrorContext =
  file_path :: string
  line_number :: "int option"
  column_number :: "int option"
  function_name :: "string option"
  class_name :: "string option"
  surrounding_code :: "string option"

definition dotstar :: rx where
  "dotstar = Many AnyChar"

text \<open>
  \<^verbatim>\<open>self.error_patterns\<close>: a dict, read in insertion order by \<^verbatim>\<open>.items()\<close>; each
  pattern is given with its source text.
\<close>

text \<open>
  The first TYPESCRIPT pattern is \<^verbatim>\<open>TS\d+:\<close>, the fifth
  \<^verbatim>\<open>Expected \d+ arguments, but got \d+\<close>; the second TEST pattern is
  \<^verbatim>\<open>expect\(.*\)\.to\<close>, where the brackets and the dot are escaped, hence literal.
\<close>

definition typescript_patterns :: "rx list" where
  "typescript_patterns =
    [ seq_rx [text_rx ''TS'', many1 Digit, text_rx '':''],
      \<comment> \<open>\<^verbatim>\<open>Type '.*' is not assignable to type\<close>\<close>
      seq_rx [text_rx (''Type '' @ sq), dotstar, text_rx (sq @ '' is not assignable to type'')],
      \<comment> \<open>\<^verbatim>\<open>Property '.*' does not exist on type\<close>\<close>
      seq_rx [text_rx (''Property '' @ sq), dotstar, text_rx (sq @ '' does not exist on type'')],
      \<comment> \<open>\<^verbatim>\<open>Cannot find name '.*'\<close>\<close>
      seq_rx [text_rx (''Cannot find name '' @ sq), dotstar, text_rx sq],
      seq_rx [text_rx ''Expected '', many1 Digit, text_rx '' arguments, but got '', many1 Digit],
      \<comment> \<open>\<^verbatim>\<open>Object is possibly 'null'\<close>\<close>
      text_rx (''Object is possibly '' @ sq @ ''null'' @ sq),
      \<comment> \<open>\<^verbatim>\<open>Object is possibly 'undefined'\<close>\<close>
      text_rx (''Object is possibly '' @ sq @ ''undefined'' @ sq) ]"

definition react_patterns :: "rx list" where
  "react_patterns =
    [ text_rx ''React Hook'',
      text_rx ''Invalid hook call'',
      \<comment> \<open>\<^verbatim>\<open>Cannot read propert(y|ies) of undefined\<close>\<close>
      seq_rx [text_rx ''Cannot read propert'', Either (text_rx ''y'') (text_rx ''ies''),
              text_rx '' of undefined''],
      \<comment> \<open>\<^verbatim>\<open>Cannot read propert(y|ies) of null\<close>\<close>
      seq_rx [text_rx ''Cannot read propert'', Either (text_rx ''y'') (text_rx ''ies''),
              text_rx '' of null''],
      \<comment> \<open>\<^verbatim>\<open>JSX element .* has no corresponding closing tag\<close>\<close>
      seq_rx [text_rx ''JSX element '', dotstar, text_rx '' has no corresponding closing tag''],
      text_rx ''Expected an assignment or function call'' ]"

definition test_patterns :: "rx list" where
  "test_patterns =
    [ text_rx ''Test failed'',
      seq_rx [text_rx ''expect('', dotstar, text_rx '').to''],
      text_rx ''AssertionError'',
      \<comment> \<open>\<^verbatim>\<open>ReferenceError.*describe\<close>\<close>
      seq_rx [text_rx ''ReferenceError'', dotstar, text_rx ''describe''],
      \<comment> \<open>\<^verbatim>\<open>ReferenceError.*it\<close>\<close>
      seq_rx [text_rx ''ReferenceError'', dotstar, text_rx ''it''],
      \<comment> \<open>\<^verbatim>\<open>ReferenceError.*expect\<close>\<close>
      seq_rx [text_rx ''ReferenceError'', dotstar, text_rx ''expect''],
      text_rx ''vitest'',
      text_rx ''jest'' ]"

definition lint_patterns :: "rx list" where
  "lint_patterns =
    [ text_rx ''eslint'',
      text_rx ''Parsing error'',
      \<comment> \<open>\<^verbatim>\<open>'.*' is defined but never used\<close>\<close>
      seq_rx [text_rx sq, dotstar, text_rx (sq @ '' is defined but never used'')],
      text_rx ''Missing semicolon'',
      text_rx ''Unexpected token'' ]"

definition build_patterns :: "rx list" where
  "build_patterns =
    [ text_rx ''Build failed'',
      text_rx ''Module not found'',
      text_rx ''Cannot resolve module'',
      text_rx ''Compilation error'',
      text_rx ''SyntaxError: Unexpected token'' ]"

definition runtime_patterns :: "rx list" where
  "runtime_patterns =
    [ text_rx ''ReferenceError'',
      text_rx ''TypeError'',
      text_rx ''RangeError'',
      text_rx ''SyntaxError'',
      text_rx ''at runtime'' ]"

definition dependency_patterns :: "rx list" where
  "dependency_patterns =
    [ text_rx ''npm ERR!'',
      text_rx ''yarn error'',
      \<comment> \<open>\<^verbatim>\<open>Package .* not found\<close>\<close>
      seq_rx [text_rx ''Package '', dotstar, text_rx '' not found''],
      \<comment> \<open>\<^verbatim>\<open>Module .* not found\<close>\<close>
      seq_rx [text_rx ''Module '', dotstar, text_rx '' not found''],
      text_rx ''Cannot find module'' ]"

definition error_patterns :: "(ErrorType \<times> rx list) list" where
  "error_patterns =
    [ (TYPESCRIPT, typescript_patterns),
      (REACT, react_patterns),
      (TEST, test_patterns),
      (LINT, lint_patterns),
      (BUILD, build_patterns),
      (RUNTIME, runtime_patterns),
      (DEPENDENCY, dependency_patterns) ]"

text \<open>\<^verbatim>\<open>self.error_patterns[error_type]\<close>; every key the classifier reads is present.\<close>

definition patterns_of :: "ErrorType \<Rightarrow> rx list" where
  "patterns_of t = (case map_of error_patterns t of Some ps \<Rightarrow> ps | None \<Rightarrow> [])"

text \<open>
  \<^verbatim>\<open>context.file_path.split('.')[-1].lower() if context.file_path else ""\<close>
\<close>

definition file_ext :: "ErrorContext \<Rightarrow> string" where
  "file_ext ctx =
     (if file_path ctx \<noteq> [] then lower (last (split_on CHR ''.'' (file_path ctx))) else [])"

text \<open>The loop \<^verbatim>\<open>for error_type, patterns in self.error_patterns.items()\<close>.\<close>

fun scan_patterns :: "(ErrorType \<times> rx list) list \<Rightarrow> string \<Rightarrow> ErrorType" where
  "scan_patterns [] msg = GENERAL"
| "scan_patterns ((error_type, patterns) # rest) msg =
     (if any_search patterns msg then error_type else scan_patterns rest msg)"

definition classify_error_type :: "string \<Rightarrow> ErrorContext \<Rightarrow> ErrorType" where
  "classify_error_type error_message ctx =
     (if file_ext ctx \<in> set [''ts'', ''tsx''] \<and> any_search (patterns_of TYPESCRIPT) error_message
      then TYPESCRIPT
      else if (contains ''test'' (lower (file_path ctx)) \<or> contains ''spec'' (lower (file_path ctx)))
              \<and> any_search (patterns_of TEST) error_message
      then TEST
      else scan_patterns error_patterns error_message)"

text \<open>
  The classification as the specification words it: the two context checks first, then
  the first type of the enumeration, in its declared order, one of whose patterns matches.
\<close>

definition enumeration_order :: "ErrorType list" where
  "enumeration_order = [TYPESCRIPT, REACT, TEST, LINT, BUILD, RUNTIME, DEPENDENCY, GENERAL]"

definition typed_source_file :: "ErrorContext \<Rightarrow> bool" where
  "typed_source_file ctx = (file_ext ctx = ''ts'' \<or> file_ext ctx = ''tsx'')"

definition test_file :: "ErrorContext \<Rightarrow> bool" where
  "test_file ctx =
     (contains ''test'' (lower (file_path ctx)) \<or> contains ''spec'' (lower (file_path ctx)))"

definition group_matches :: "ErrorType \<Rightarrow> string \<Rightarrow> bool" where
  "group_matches t msg = any_search (patterns_of t) msg"

definition spec_classify :: "string \<Rightarrow> ErrorContext \<Rightarrow> ErrorType" where
  "spec_classify msg ctx =
     (if typed_source_file ctx \<and> group_matches TYPESCRIPT msg then TYPESCRIPT
      else if test_file ctx \<and> group_matches TEST msg then TEST
      else (case find (\<lambda>t. group_matches t msg) enumeration_order of
              Some t \<Rightarrow> t
            | None \<Rightarrow> GENERAL))"

subsection \<open>Priority score\<close>

text \<open>
  Python computes the score in binary floating point and rounds it with
  \<^verbatim>\<open>round(score, 2)\<close>. The model computes in exact rationals, with the weights at their
  decimal values; \<open>py_round\<close> rounds to the given number of hundredths, ties to the even
  neighbour as Python does.
\<close>

definition round_half_even :: "rat \<Rightarrow> int" where
  "round_half_even x =
     (let f = floor x; d = x - of_int f
      in if d < 1 / 2 then f
         else if 1 / 2 < d then f + 1
         else if even f then f else f + 1)"

definition py_round2 :: "rat \<Rightarrow> rat" where
  "py_round2 x = of_int (round_half_even (x * 100)) / 100"

definition type_multipliers :: "(ErrorType \<times> rat) list" where
  "type_multipliers =
    [ (TYPESCRIPT, 12 / 10),
      (BUILD, 13 / 10),
      (REACT, 11 / 10),
      (TEST, 1),
      (LINT, 8 / 10),
      (RUNTIME, 11 / 10),
      (DEPENDENCY, 12 / 10),
      (GENERAL, 9 / 10) ]"

definition critical_paths :: "string list" where
  "critical_paths =
    [''src/main'', ''src/app'', ''src/index'', ''package.json'', ''tsconfig.json'', ''vite.config'']"

definition calculate_priority_score :: "ErrorType \<Rightarrow> ErrorSeverity \<Rightarrow> ErrorContext \<Rightarrow> rat" where
  "calculate_priority_score error_type severity ctx =
     (let base_score = 10 - of_int (severity_value severity);
          score = base_score * (case map_of type_multipliers error_type of
                                  Some m \<Rightarrow> m
                                | None \<Rightarrow> 1);
          score = (if file_path ctx \<noteq> []
                      \<and> list_ex (\<lambda>critical. contains critical (lower (file_path ctx))) critical_paths
                   then score * (12 / 10)
                   else score)
      in py_round2 score)"

text \<open>
  The score as the specification words it: the base is the largest severity ordinal plus
  one, minus the severity's ordinal.
\<close>

definition max_severity_ordinal :: int where
  "max_severity_ordinal = severity_value LOW"

definition type_weight :: "ErrorType \<Rightarrow> rat" where
  "type_weight t = (case map_of type_multipliers t of Some m \<Rightarrow> m | None \<Rightarrow> 1)"

definition on_critical_path :: "ErrorContext \<Rightarrow> bool" where
  "on_critical_path ctx =
     list_ex (\<lambda>critical. contains critical (file_path ctx)) critical_paths"

definition spec_priority_score :: "ErrorType \<Rightarrow> ErrorSeverity \<Rightarrow> ErrorContext \<Rightarrow> rat" where
  "spec_priority_score t severity ctx =
     py_round2 (of_int ((max_severity_ordinal + 1) - severity_value severity) * type_weight t
                * (if on_critical_path ctx then 12 / 10 else 1))"

section \<open>Jobs, results and the services (distributed\_coordinator.py)\<close>

text \<open>A call that raises is the value \<open>Raised\<close> with \<^verbatim>\<open>str(e)\<close>.\<close>

datatype 'a outcome = Returned 'a | Raised string

text \<open>\<^verbatim>\<open>str(n)\<close> of an integer.\<close>

definition digit_char :: "nat \<Rightarrow> char" where
  "digit_char d = char_of (48 + d)"

fun str_nat :: "nat \<Rightarrow> string" where
  "str_nat n = (if n < 10 then [digit_char n] else str_nat (n div 10) @ [digit_char (n mod 10)])"

declare str_nat.simps [simp del]

definition str_int :: "int \<Rightarrow> string" where
  "str_int i = (if i < 0 then ''-'' @ str_nat (nat (- i)) else str_nat (nat i))"

text \<open>The dataclass \<^verbatim>\<open>TestJob\<close>; \<open>ident\<close> is its field \<^verbatim>\<open>id\<close>.\<close>

record TestJob =
  ident :: string
  code :: string
  language :: string
  test_type :: string
  priority :: int
  retry_count :: int
  max_retries :: int
  created_at :: string

text \<open>The dataclass \<^verbatim>\<open>TestResult\<close>; the coverage is a float in Python, a rational here.\<close>

record TestResult =
  job_id :: string
  success :: bool
  tests_generated :: int
  tests_passed :: int
  tests_failed :: int
  coverage_percentage :: rat
  execution_time_ms :: int
  error_message :: "string option"
  generated_tests :: "string option"
  completed_at :: string

text \<open>
  A message body is the JSON text of a job (\<^verbatim>\<open>json.dumps(asdict(job))\<close>), from which
  \<^verbatim>\<open>TestJob(**json.loads(body))\<close> gives the job back, or some other text, on which the
  decoding raises.
\<close>

datatype Body = Json TestJob | Malformed string

fun parse_job :: "Body \<Rightarrow> TestJob outcome" where
  "parse_job (Json job) = Returned job"
| "parse_job (Malformed e) = Raised e"

text \<open>An SQS message as \<^verbatim>\<open>receive_message\<close> delivers it.\<close>

record Message =
  ReceiptHandle :: string
  MessageBody :: Body

text \<open>One entry of a \<^verbatim>\<open>send_message_batch\<close> call, and the response to the call.\<close>

record BatchEntry =
  Id :: string
  EntryBody :: Body
  Priority :: string
  Language :: string

record BatchResponse =
  Successful :: "(string \<times> string) list"
  Failed :: "(string \<times> string) list"

text \<open>
  The coordinator's two maps, with the services it talks to: the queue holds the messages
  sent and not yet deleted, \<open>sent\<close> is every job the queue accepted through
  \<^verbatim>\<open>send_message\<close>, \<open>bucket\<close> every object put into the result bucket, \<open>batch_calls\<close> the
  entries of every \<^verbatim>\<open>send_message_batch\<close> call, all oldest first; \<open>errors_logged\<close> are the
  lines of \<^verbatim>\<open>logger.error\<close>.
\<close>

record Coordinator =
  active_jobs :: "string \<rightharpoonup> TestJob"
  completed_jobs :: "string \<rightharpoonup> TestResult"
  queue :: "Message list"
  next_message :: nat
  sent :: "TestJob list"
  bucket :: "(string \<times> TestResult) list"
  batch_calls :: "BatchEntry list list"
  errors_logged :: "string list"

definition log_error :: "string \<Rightarrow> Coordinator \<Rightarrow> Coordinator" where
  "log_error line s = s\<lparr>errors_logged := errors_logged s @ [line]\<rparr>"

text \<open>
  What the services do in one run of \<^verbatim>\<open>_process_single_job\<close>: for each call that can
  raise, the text of the exception if it does; the measured duration; the clock.
\<close>

record Env =
  generate_raises :: "string option"
  store_raises :: "string option"
  delete_raises :: "string option"
  requeue_raises :: "string option"
  failure_store_raises :: "string option"
  retry_delete_raises :: "string option"
  elapsed_ms :: int
  now :: string
  today :: string

text \<open>\<^verbatim>\<open>self.sqs.send_message\<close>: the queue names the message and keeps it.\<close>

definition sqs_send_message :: "string option \<Rightarrow> TestJob \<Rightarrow> Coordinator \<Rightarrow> string outcome \<times> Coordinator" where
  "sqs_send_message raises job s =
     (case raises of
        Some e \<Rightarrow> (Raised e, s)
      | None \<Rightarrow>
          (let message_id = ''msg-'' @ str_nat (next_message s)
           in (Returned message_id,
               s\<lparr>queue := queue s @ [\<lparr>ReceiptHandle = message_id, MessageBody = Json job\<rparr>],
                 next_message := Suc (next_message s),
                 sent := sent s @ [job]\<rparr>)))"

text \<open>\<^verbatim>\<open>self.sqs.delete_message\<close>\<close>

definition sqs_delete_message :: "string option \<Rightarrow> string \<Rightarrow> Coordinator \<Rightarrow> unit outcome \<times> Coordinator" where
  "sqs_delete_message raises receipt_handle s =
     (case raises of
        Some e \<Rightarrow> (Raised e, s)
      | None \<Rightarrow> (Returned (), s\<lparr>queue := filter (\<lambda>m. ReceiptHandle m \<noteq> receipt_handle) (queue s)\<rparr>))"

text \<open>
  \<^verbatim>\<open>submit_test_job\<close>; the metrics sink is best effort (\<^verbatim>\<open>_send_metric\<close> swallows
  its \<^verbatim>\<open>ClientError\<close>) and is left out.
\<close>

definition submit_test_job :: "string option \<Rightarrow> TestJob \<Rightarrow> Coordinator \<Rightarrow> string outcome \<times> Coordinator" where
  "submit_test_job raises job s =
     (case sqs_send_message raises job s of
        (Returned message_id, s') \<Rightarrow>
          (Returned message_id, s'\<lparr>active_jobs := (active_jobs s')(ident job \<mapsto> job)\<rparr>)
      | (Raised e, s') \<Rightarrow>
          (Raised e, log_error (''Failed to submit job '' @ ident job @ '': '' @ e) s'))"

text \<open>\<^verbatim>\<open>_store_results\<close>: one object per job and day.\<close>

definition store_results :: "string option \<Rightarrow> string \<Rightarrow> string \<Rightarrow> TestResult \<Rightarrow> Coordinator \<Rightarrow> unit outcome \<times> Coordinator" where
  "store_results raises day jid result s =
     (case raises of
        Some e \<Rightarrow>
          (Raised e, log_error (''Failed to store results for job '' @ jid @ '': '' @ e) s)
      | None \<Rightarrow>
          (let key = ''test-results/'' @ day @ ''/'' @ jid @ ''.json''
           in (Returned (), s\<lparr>bucket := bucket s @ [(key, result)]\<rparr>)))"

text \<open>\<^verbatim>\<open>_generate_tests\<close>: the placeholder of the source, which reports two passing tests.\<close>

definition generate_tests :: "string \<Rightarrow> TestJob \<Rightarrow> TestResult" where
  "generate_tests clock job =
     \<lparr>job_id = ident job,
      success = True,
      tests_generated = 2,
      tests_passed = 2,
      tests_failed = 0,
      coverage_percentage = 855 / 10,
      execution_time_ms = 0,
      error_message = None,
      generated_tests = Some
        (nl @ ''// Generated '' @ test_type job @ '' tests for '' @ language job @ nl
         @ ''describe('' @ sq @ ident job @ sq @ '', () => {'' @ nl
         @ ''    it('' @ sq @ ''should pass basic functionality test'' @ sq @ '', () => {'' @ nl
         @ ''        // Test implementation here'' @ nl
         @ ''        expect(true).toBe(true);'' @ nl
         @ ''    });'' @ nl
         @ ''    '' @ nl
         @ ''    it('' @ sq @ ''should handle edge cases'' @ sq @ '', () => {'' @ nl
         @ ''        // Edge case test implementation'' @ nl
         @ ''        expect(true).toBe(true);'' @ nl
         @ ''    });'' @ nl
         @ ''});'' @ nl),
      completed_at = clock\<rparr>"

text \<open>The result both files build when a job has failed for good.\<close>

definition failure_result :: "string \<Rightarrow> TestJob \<Rightarrow> string \<Rightarrow> TestResult" where
  "failure_result clock job e =
     \<lparr>job_id = ident job,
      success = False,
      tests_generated = 0,
      tests_passed = 0,
      tests_failed = 0,
      coverage_percentage = 0,
      execution_time_ms = 0,
      error_message = Some e,
      generated_tests = None,
      completed_at = clock\<rparr>"

subsection \<open>The consumer: \<^verbatim>\<open>_process_single_job\<close>\<close>

text \<open>
  The body of the \<^verbatim>\<open>try\<close>: decode, generate, store, record the completion, delete the
  message. It stops at the first call that raises and hands the exception's text on,
  with the state as it is at that point.
\<close>

definition try_process :: "Env \<Rightarrow> Message \<Rightarrow> Coordinator \<Rightarrow> unit outcome \<times> Coordinator" where
  "try_process env message s =
     (case parse_job (MessageBody message) of
        Raised e \<Rightarrow> (Raised e, s)
      | Returned job \<Rightarrow>
          (case generate_raises env of
             Some e \<Rightarrow> (Raised e, s)
           | None \<Rightarrow>
               (let test_result = (generate_tests (now env) job)\<lparr>execution_time_ms := elapsed_ms env\<rparr>
                in case store_results (store_raises env) (today env) (ident job) test_result s of
                     (Raised e, s1) \<Rightarrow> (Raised e, s1)
                   | (Returned u, s1) \<Rightarrow>
                       (let s2 = s1\<lparr>completed_jobs := (completed_jobs s1)(ident job \<mapsto> test_result)\<rparr>;
                            s3 = s2\<lparr>active_jobs := (active_jobs s2)(ident job := None)\<rparr>
                        in sqs_delete_message (delete_raises env) (ReceiptHandle message) s3))))"

text \<open>
  Inside the \<^verbatim>\<open>except\<close>: the branch taken while retries are left, and the branch taken
  when they are used up.
\<close>

definition requeue :: "Env \<Rightarrow> TestJob \<Rightarrow> Coordinator \<Rightarrow> unit outcome \<times> Coordinator" where
  "requeue env job s =
     (let job' = job\<lparr>retry_count := retry_count job + 1\<rparr>
      in case submit_test_job (requeue_raises env) job' s of
           (Returned message_id, s1) \<Rightarrow> (Returned (), s1)
         | (Raised e, s1) \<Rightarrow> (Raised e, s1))"

definition give_up :: "Env \<Rightarrow> TestJob \<Rightarrow> string \<Rightarrow> Coordinator \<Rightarrow> unit outcome \<times> Coordinator" where
  "give_up env job e s =
     (case store_results (failure_store_raises env) (today env) (ident job)
             (failure_result (now env) job e) s of
        (Returned u, s1) \<Rightarrow>
          (Returned (),
           log_error (''Job '' @ ident job @ '' failed after '' @ str_int (max_retries job)
                      @ '' retries'') s1)
      | (Raised x, s1) \<Rightarrow> (Raised x, s1))"

text \<open>
  The \<^verbatim>\<open>except Exception as e\<close> of \<^verbatim>\<open>_process_single_job\<close>: decode again, requeue or
  give up, then delete the delivered message; whatever raises in here is logged and
  dropped.
\<close>

definition handle_failure :: "Env \<Rightarrow> Message \<Rightarrow> string \<Rightarrow> Coordinator \<Rightarrow> Coordinator" where
  "handle_failure env message e s =
     (let s0 = log_error (''Error processing job: '' @ e) s
      in case parse_job (MessageBody message) of
           Raised retry_error \<Rightarrow> log_error (''Error handling job retry: '' @ retry_error) s0
         | Returned job \<Rightarrow>
             (case (if retry_count job < max_retries job then requeue env job s0
                    else give_up env job e s0) of
                (Raised retry_error, s1) \<Rightarrow>
                  log_error (''Error handling job retry: '' @ retry_error) s1
              | (Returned u, s1) \<Rightarrow>
                  (case sqs_delete_message (retry_delete_raises env) (ReceiptHandle message) s1 of
                     (Raised retry_error, s2) \<Rightarrow>
                       log_error (''Error handling job retry: '' @ retry_error) s2
                   | (Returned v, s2) \<Rightarrow> s2)))"

definition process_single_job :: "Env \<Rightarrow> Message \<Rightarrow> Coordinator \<Rightarrow> Coordinator" where
  "process_single_job env message s =
     (case try_process env message s of
        (Raised e, s') \<Rightarrow> handle_failure env message e s'
      | (Returned u, s') \<Rightarrow> s')"

text \<open>
  The life of the messages of a queue, one delivery after the other: each delivery takes
  the oldest message and processes it under the next environment; an empty queue
  delivers nothing.
\<close>

fun consume :: "Env list \<Rightarrow> Coordinator \<Rightarrow> Coordinator" where
  "consume [] s = s"
| "consume (env # envs) s =
     (case queue s of
        [] \<Rightarrow> s
      | message # rest \<Rightarrow> consume envs (process_single_job env message s))"

subsection \<open>\<^verbatim>\<open>get_job_status\<close>\<close>

datatype JobStatus = Completed TestResult | Processing TestJob | NotFound

text \<open>The entry \<^verbatim>\<open>'status'\<close> of the dict that \<^verbatim>\<open>get_job_status\<close> returns.\<close>

fun status_name :: "JobStatus \<Rightarrow> string" where
  "status_name (Completed result) = ''completed''"
| "status_name (Processing job) = ''processing''"
| "status_name NotFound = ''not_found''"

definition get_job_status :: "Coordinator \<Rightarrow> string \<Rightarrow> JobStatus" where
  "get_job_status s jid =
     (case completed_jobs s jid of
        Some result \<Rightarrow> Completed result
      | None \<Rightarrow>
          (case active_jobs s jid of
             Some job \<Rightarrow> Processing job
           | None \<Rightarrow> NotFound))"

subsection \<open>Batch submission: \<^verbatim>\<open>submit_batch_jobs\<close>\<close>

text \<open>
  The slices \<^verbatim>\<open>xs[i:i + n]\<close> for \<^verbatim>\<open>i in range(0, len(xs), n)\<close>, for a positive step.
\<close>

function chunks_of :: "nat \<Rightarrow> 'a list \<Rightarrow> 'a list list" where
  "chunks_of n xs = (if n = 0 \<or> xs = [] then [] else take n xs # chunks_of n (drop n xs))"
  by pat_completeness auto
termination
  by (relation "measure (\<lambda>(n, xs). length xs)") auto

declare chunks_of.simps [simp del]

definition entry_of :: "TestJob \<Rightarrow> BatchEntry" where
  "entry_of job =
     \<lparr>Id = ident job, EntryBody = Json job, Priority = str_int (priority job),
      Language = language job\<rparr>"

text \<open>
  The loop over \<^verbatim>\<open>response.get('Successful', [])\<close>: the message id is collected and the
  job looked up in the batch by \<^verbatim>\<open>next(j for j in batch if j.id == job_id)\<close>, which
  raises inside the coroutine when no job of the batch has that id.
\<close>

fun track_successful ::
  "TestJob list \<Rightarrow> (string \<times> string) list \<Rightarrow> string list \<Rightarrow> Coordinator
   \<Rightarrow> string list outcome \<times> Coordinator" where
  "track_successful batch [] message_ids s = (Returned message_ids, s)"
| "track_successful batch ((jid, message_id) # others) message_ids s =
     (case find (\<lambda>j. ident j = jid) batch of
        None \<Rightarrow> (Raised ''coroutine raised StopIteration'', s)
      | Some job \<Rightarrow>
          track_successful batch others (message_ids @ [message_id])
            (s\<lparr>active_jobs := (active_jobs s)(jid \<mapsto> job)\<rparr>))"

text \<open>The loop over \<^verbatim>\<open>response.get('Failed', [])\<close>: one line of the error log each.\<close>

definition failure_line :: "string \<times> string \<Rightarrow> string" where
  "failure_line f = ''Failed to submit job '' @ fst f @ '': '' @ snd f"

definition log_failed :: "(string \<times> string) list \<Rightarrow> Coordinator \<Rightarrow> Coordinator" where
  "log_failed failures s = s\<lparr>errors_logged := errors_logged s @ map failure_line failures\<rparr>"

text \<open>The messages the queue keeps of a batch call: the entries it reports as successful.\<close>

definition accepted :: "BatchEntry list \<Rightarrow> BatchResponse \<Rightarrow> Message list" where
  "accepted entries response =
     concat (map (\<lambda>(jid, message_id).
                    map (\<lambda>entry. \<lparr>ReceiptHandle = message_id, MessageBody = EntryBody entry\<rparr>)
                        (filter (\<lambda>entry. Id entry = jid) entries))
                 (Successful response))"

text \<open>
  The queue as \<^verbatim>\<open>send_message_batch\<close> sees it: what the \<open>k\<close>-th call of the run answers
  to its entries, a response or a \<^verbatim>\<open>ClientError\<close>. The loop over the batches logs
  that error and raises it again.
\<close>

type_synonym BatchQueue = "nat \<Rightarrow> BatchEntry list \<Rightarrow> BatchResponse outcome"

fun submit_batches ::
  "BatchQueue \<Rightarrow> TestJob list list \<Rightarrow> string list \<Rightarrow> Coordinator
   \<Rightarrow> string list outcome \<times> Coordinator" where
  "submit_batches send_message_batch [] message_ids s = (Returned message_ids, s)"
| "submit_batches send_message_batch (batch # rest) message_ids s =
     (let entries = map entry_of batch;
          s1 = s\<lparr>batch_calls := batch_calls s @ [entries]\<rparr>
      in case send_message_batch (length (batch_calls s)) entries of
           Raised e \<Rightarrow> (Raised e, log_error (''Failed to submit job batch: '' @ e) s1)
         | Returned response \<Rightarrow>
             (case track_successful batch (Successful response) message_ids
                     (s1\<lparr>queue := queue s1 @ accepted entries response\<rparr>) of
                (Returned message_ids', s2) \<Rightarrow>
                  submit_batches send_message_batch rest message_ids'
                    (log_failed (Failed response) s2)
              | (Raised e, s2) \<Rightarrow> (Raised e, s2)))"

definition submit_batch_jobs ::
  "BatchQueue \<Rightarrow> TestJob list \<Rightarrow> Coordinator \<Rightarrow> string list outcome \<times> Coordinator" where
  "submit_batch_jobs send_message_batch jobs s =
     (let batch_size = 10
      in submit_batches send_message_batch (chunks_of batch_size jobs) [] s)"

section \<open>The executor (parallel\_executor.py)\<close>

datatype ExecutionStrategy =
  SEQUENTIAL | PARALLEL_FILES | PARALLEL_FUNCTIONS | HYBRID | LOAD_BALANCED

record ExecutionConfig =
  strategy :: ExecutionStrategy
  max_workers :: int
  timeout_seconds :: int
  retry_attempts :: int
  batch_size :: int
  priority_levels :: "int list"

text \<open>
  \<^verbatim>\<open>ExecutionResult\<close>; \<open>n_completed_jobs\<close> and \<open>total_time_ms\<close> are its fields
  \<^verbatim>\<open>completed_jobs\<close> and \<^verbatim>\<open>execution_time_ms\<close>. The three ratios are floats in Python,
  rationals here.
\<close>

record ExecutionResult =
  total_jobs :: nat
  n_completed_jobs :: nat
  failed_jobs :: nat
  total_time_ms :: int
  average_job_time_ms :: rat
  throughput_jobs_per_second :: rat
  error_rate_percentage :: rat
  results :: "TestResult list"

text \<open>
  What the executor meets while it runs: whether \<^verbatim>\<open>coordinator.submit_test_job\<close> raises
  for a job; what \<^verbatim>\<open>coordinator.get_job_status\<close> answers for a job id at the first,
  second, ... poll of a wait; the order in which concurrent jobs finish; the dict that
  \<^verbatim>\<open>coordinator.get_queue_stats\<close> returns; the measured duration; the clock. Of that
  dict the model keeps the entries that are numbers: when the queue cannot be read the
  source returns a dict that holds only the text of the error, which has none.
\<close>

record ExecEnv =
  submit_raises :: "TestJob \<Rightarrow> string option"
  observed :: "string \<Rightarrow> nat \<Rightarrow> JobStatus"
  finish_order :: "string \<Rightarrow> nat"
  queue_stats :: "string \<rightharpoonup> int"
  wall_clock_ms :: int
  clock :: string

text \<open>
  The progress callback gets a count, the total and the last result (in the batched
  strategy the raw outcome of the last wait, or nothing); it answers with the text of
  the exception when it raises.
\<close>

type_synonym ProgressCallback = "nat \<Rightarrow> nat \<Rightarrow> TestResult outcome option \<Rightarrow> string option"

subsection \<open>\<^verbatim>\<open>_wait_for_job_completion\<close>\<close>

text \<open>
  The loop polls, then sleeps one second; the model takes the \<open>k\<close>-th poll to happen
  \<open>k\<close> seconds after the start, so the loop polls while \<open>k < timeout_seconds\<close>.
\<close>

function wait_loop :: "(nat \<Rightarrow> JobStatus) \<Rightarrow> int \<Rightarrow> nat \<Rightarrow> TestResult option" where
  "wait_loop status_at timeout k =
     (if int k < timeout
      then (case status_at k of
              Completed result \<Rightarrow> Some result
            | Processing job \<Rightarrow> wait_loop status_at timeout (Suc k)
            | NotFound \<Rightarrow> wait_loop status_at timeout (Suc k))
      else None)"
  by pat_completeness auto
termination
  by (relation "measure (\<lambda>(status_at, timeout, k). nat (timeout - int k))") auto

declare wait_loop.simps [simp del]

definition timeout_text :: "string \<Rightarrow> int \<Rightarrow> string" where
  "timeout_text jid timeout =
     ''Job '' @ jid @ '' did not complete within '' @ str_int timeout @ '' seconds''"

definition wait_for_job_completion :: "(nat \<Rightarrow> JobStatus) \<Rightarrow> string \<Rightarrow> int \<Rightarrow> TestResult outcome" where
  "wait_for_job_completion status_at jid timeout =
     (case wait_loop status_at timeout 0 of
        Some result \<Rightarrow> Returned result
      | None \<Rightarrow> Raised (timeout_text jid timeout))"

text \<open>Submit, then wait: the two calls every strategy makes for a job.\<close>

definition wait_for :: "ExecEnv \<Rightarrow> ExecutionConfig \<Rightarrow> TestJob \<Rightarrow> TestResult outcome" where
  "wait_for env cfg job =
     wait_for_job_completion (observed env (ident job)) (ident job) (timeout_seconds cfg)"

definition submit_and_wait :: "ExecEnv \<Rightarrow> ExecutionConfig \<Rightarrow> TestJob \<Rightarrow> TestResult outcome" where
  "submit_and_wait env cfg job =
     (case submit_raises env job of
        Some e \<Rightarrow> Raised e
      | None \<Rightarrow> wait_for env cfg job)"

subsection \<open>\<^verbatim>\<open>_execute_sequential\<close>\<close>

text \<open>
  One job after the other. The \<^verbatim>\<open>try\<close> holds the submission, the wait, the append and
  the callback; its \<^verbatim>\<open>except Exception\<close> appends a failure result, also when it is the
  callback that raised, after the result was appended.
\<close>

fun sequential_loop ::
  "ExecEnv \<Rightarrow> ExecutionConfig \<Rightarrow> ProgressCallback option \<Rightarrow> nat \<Rightarrow> nat \<Rightarrow> TestJob list
   \<Rightarrow> TestResult list" where
  "sequential_loop env cfg callback len_jobs i [] = []"
| "sequential_loop env cfg callback len_jobs i (job # rest) =
     (case submit_and_wait env cfg job of
        Raised e \<Rightarrow> [failure_result (clock env) job e]
      | Returned result \<Rightarrow>
          (case callback of
             None \<Rightarrow> [result]
           | Some progress_callback \<Rightarrow>
               (case progress_callback (i + 1) len_jobs (Some (Returned result)) of
                  None \<Rightarrow> [result]
                | Some e \<Rightarrow> [result, failure_result (clock env) job e])))
     @ sequential_loop env cfg callback len_jobs (i + 1) rest"

definition execute_sequential ::
  "ExecEnv \<Rightarrow> ExecutionConfig \<Rightarrow> TestJob list \<Rightarrow> ProgressCallback option \<Rightarrow> TestResult list" where
  "execute_sequential env cfg jobs callback = sequential_loop env cfg callback (length jobs) 0 jobs"

subsection \<open>\<^verbatim>\<open>_execute_parallel_files\<close>\<close>

text \<open>
  Batch after batch. The submissions of a batch are gathered with their exceptions and
  not looked at; the waits are gathered with their exceptions, and each exception
  becomes a failure result. The callback is outside every \<^verbatim>\<open>try\<close>.
\<close>

definition settle :: "ExecEnv \<Rightarrow> TestJob \<Rightarrow> TestResult outcome \<Rightarrow> TestResult" where
  "settle env job r =
     (case r of
        Raised e \<Rightarrow> failure_result (clock env) job e
      | Returned result \<Rightarrow> result)"

fun files_loop ::
  "ExecEnv \<Rightarrow> ExecutionConfig \<Rightarrow> ProgressCallback option \<Rightarrow> nat \<Rightarrow> TestJob list list
   \<Rightarrow> TestResult list \<Rightarrow> TestResult list outcome" where
  "files_loop env cfg callback len_jobs [] rs = Returned rs"
| "files_loop env cfg callback len_jobs (batch # rest) rs =
     (let batch_results = map (wait_for env cfg) batch;
          rs' = rs @ map (\<lambda>(job, r). settle env job r) (zip batch batch_results)
      in case callback of
           None \<Rightarrow> files_loop env cfg callback len_jobs rest rs'
         | Some progress_callback \<Rightarrow>
             (case progress_callback (length rs') len_jobs
                     (if batch_results = [] then None else Some (last batch_results)) of
                Some e \<Rightarrow> Raised e
              | None \<Rightarrow> files_loop env cfg callback len_jobs rest rs'))"

text \<open>
  \<^verbatim>\<open>range(0, len(jobs), batch_size)\<close> raises for a step of zero and is empty for a
  negative one.
\<close>

definition execute_parallel_files ::
  "ExecEnv \<Rightarrow> ExecutionConfig \<Rightarrow> TestJob list \<Rightarrow> ProgressCallback option
   \<Rightarrow> TestResult list outcome" where
  "execute_parallel_files env cfg jobs callback =
     (if batch_size cfg = 0 then Raised ''range() arg 3 must not be zero''
      else if batch_size cfg < 0 then Returned []
      else files_loop env cfg callback (length jobs) (chunks_of (nat (batch_size cfg)) jobs) [])"

subsection \<open>\<^verbatim>\<open>_execute_parallel_functions\<close>\<close>

definition execute_single_job :: "ExecEnv \<Rightarrow> ExecutionConfig \<Rightarrow> TestJob \<Rightarrow> TestResult" where
  "execute_single_job env cfg job =
     (case submit_and_wait env cfg job of
        Returned result \<Rightarrow> result
      | Raised e \<Rightarrow> failure_result (clock env) job e)"

text \<open>The loop over \<^verbatim>\<open>asyncio.as_completed(tasks)\<close>, whose callback is outside every \<^verbatim>\<open>try\<close>.\<close>

fun collect ::
  "ProgressCallback option \<Rightarrow> nat \<Rightarrow> nat \<Rightarrow> TestResult list \<Rightarrow> TestResult list outcome" where
  "collect callback len_jobs i [] = Returned []"
| "collect callback len_jobs i (result # later) =
     (case (case callback of
              None \<Rightarrow> None
            | Some progress_callback \<Rightarrow> progress_callback (i + 1) len_jobs (Some (Returned result))) of
        Some e \<Rightarrow> Raised e
      | None \<Rightarrow>
          (case collect callback len_jobs (i + 1) later of
             Returned rs \<Rightarrow> Returned (result # rs)
           | Raised e \<Rightarrow> Raised e))"

text \<open>
  A semaphore of \<open>max_workers\<close> slots gates the jobs: \<^verbatim>\<open>asyncio.Semaphore\<close> raises for a
  negative value, and with no slot at all no job ever starts, so that the call never
  returns (\<open>None\<close>) when there is a job. The results come in the order the jobs finish.
\<close>

definition execute_parallel_functions ::
  "ExecEnv \<Rightarrow> ExecutionConfig \<Rightarrow> TestJob list \<Rightarrow> ProgressCallback option
   \<Rightarrow> TestResult list outcome option" where
  "execute_parallel_functions env cfg jobs callback =
     (if max_workers cfg < 0 then Some (Raised ''Semaphore initial value must be >= 0'')
      else if max_workers cfg = 0 \<and> jobs \<noteq> [] then None
      else Some (collect callback (length jobs) 0
                   (map (execute_single_job env cfg)
                        (sort_key (\<lambda>job. finish_order env (ident job)) jobs))))"

subsection \<open>\<^verbatim>\<open>_execute_hybrid\<close>\<close>

text \<open>The dict \<^verbatim>\<open>priority_groups\<close>: the jobs of each priority, in the order of the list.\<close>

definition add_to_group :: "(int \<rightharpoonup> TestJob list) \<Rightarrow> TestJob \<Rightarrow> (int \<rightharpoonup> TestJob list)" where
  "add_to_group priority_groups job =
     priority_groups(priority job \<mapsto>
       (case priority_groups (priority job) of None \<Rightarrow> [] | Some js \<Rightarrow> js) @ [job])"

definition group_by_priority :: "TestJob list \<Rightarrow> (int \<rightharpoonup> TestJob list)" where
  "group_by_priority jobs = foldl add_to_group Map.empty jobs"

text \<open>
  The three tiers run one after the other, each without the callback; an error of a tier
  ends the call, and so does a tier that never returns.
\<close>

definition execute_hybrid ::
  "ExecEnv \<Rightarrow> ExecutionConfig \<Rightarrow> TestJob list \<Rightarrow> ProgressCallback option
   \<Rightarrow> TestResult list outcome option" where
  "execute_hybrid env cfg jobs callback =
     (let priority_groups = group_by_priority jobs;
          high = (case priority_groups 1 of
                    Some js \<Rightarrow> execute_sequential env cfg js None
                  | None \<Rightarrow> [])
      in case (case priority_groups 2 of
                 Some js \<Rightarrow> execute_parallel_files env cfg js None
               | None \<Rightarrow> Returned []) of
           Raised e \<Rightarrow> Some (Raised e)
         | Returned medium \<Rightarrow>
             (case (case priority_groups 3 of
                      Some js \<Rightarrow> execute_parallel_functions env cfg js None
                    | None \<Rightarrow> Some (Returned [])) of
                None \<Rightarrow> None
              | Some (Raised e) \<Rightarrow> Some (Raised e)
              | Some (Returned low) \<Rightarrow> Some (Returned (high @ medium @ low))))"

subsection \<open>\<^verbatim>\<open>_execute_load_balanced\<close>\<close>

text \<open>\<^verbatim>\<open>queue_stats.get(key, 0)\<close>\<close>

definition stat :: "(string \<rightharpoonup> int) \<Rightarrow> string \<Rightarrow> int" where
  "stat stats key = (case stats key of Some n \<Rightarrow> n | None \<Rightarrow> 0)"

definition execute_load_balanced ::
  "ExecEnv \<Rightarrow> ExecutionConfig \<Rightarrow> TestJob list \<Rightarrow> ProgressCallback option
   \<Rightarrow> TestResult list outcome option" where
  "execute_load_balanced env cfg jobs callback =
     (if stat (queue_stats env) ''messages_available'' > 50
      then Some (Returned (execute_sequential env cfg jobs callback))
      else if stat (queue_stats env) ''messages_in_flight'' < 10
      then execute_parallel_functions env cfg jobs callback
      else Some (execute_parallel_files env cfg jobs callback))"

subsection \<open>\<^verbatim>\<open>execute_test_suite\<close>\<close>

text \<open>The choice among the strategies; the enumeration has no sixth value.\<close>

definition run_strategy ::
  "ExecEnv \<Rightarrow> ExecutionConfig \<Rightarrow> TestJob list \<Rightarrow> ProgressCallback option
   \<Rightarrow> TestResult list outcome option" where
  "run_strategy env cfg jobs callback =
     (case strategy cfg of
        SEQUENTIAL \<Rightarrow> Some (Returned (execute_sequential env cfg jobs callback))
      | PARALLEL_FILES \<Rightarrow> Some (execute_parallel_files env cfg jobs callback)
      | PARALLEL_FUNCTIONS \<Rightarrow> execute_parallel_functions env cfg jobs callback
      | HYBRID \<Rightarrow> execute_hybrid env cfg jobs callback
      | LOAD_BALANCED \<Rightarrow> execute_load_balanced env cfg jobs callback)"

definition metrics :: "ExecEnv \<Rightarrow> TestJob list \<Rightarrow> TestResult list \<Rightarrow> ExecutionResult" where
  "metrics env jobs rs =
     (let elapsed = wall_clock_ms env;
          completed = length (filter (\<lambda>r. success r) rs);
          failed = length (filter (\<lambda>r. \<not> success r) rs);
          average_job_time =
            (if rs \<noteq> [] then of_int (sum_list (map execution_time_ms rs)) / of_nat (length rs)
             else 0);
          throughput =
            (if elapsed > 0 then of_nat (length rs) / (of_int elapsed / 1000)
             else 0);
          error_rate = (if rs \<noteq> [] then of_nat failed / of_nat (length rs) * 100 else 0)
      in \<lparr>total_jobs = length jobs,
          n_completed_jobs = completed,
          failed_jobs = failed,
          total_time_ms = elapsed,
          average_job_time_ms = average_job_time,
          throughput_jobs_per_second = throughput,
          error_rate_percentage = error_rate,
          results = rs\<rparr>)"

definition execute_test_suite ::
  "ExecEnv \<Rightarrow> ExecutionConfig \<Rightarrow> TestJob list \<Rightarrow> ProgressCallback option
   \<Rightarrow> ExecutionResult outcome option" where
  "execute_test_suite env cfg jobs progress_callback =
     (case run_strategy env cfg jobs progress_callback of
        None \<Rightarrow> None
      | Some (Raised e) \<Rightarrow> Some (Raised e)
      | Some (Returned rs) \<Rightarrow> Some (Returned (metrics env jobs rs)))"

section \<open>The claims' own notions\<close>

text \<open>
  The score is raised for a path that is not empty and, in lower case, contains one of
  the critical substrings.
\<close>

definition boosted :: "ErrorContext \<Rightarrow> bool" where
  "boosted ctx =
     (file_path ctx \<noteq> []
      \<and> list_ex (\<lambda>critical. contains critical (lower (file_path ctx))) critical_paths)"

text \<open>The strategy the backlog calls for, from the two counters of the queue.\<close>

definition backlog_choice :: "int \<Rightarrow> int \<Rightarrow> ExecutionStrategy" where
  "backlog_choice available in_flight =
     (if available > 50 then SEQUENTIAL
      else if in_flight < 10 then PARALLEL_FUNCTIONS
      else PARALLEL_FILES)"

text \<open>The coordinator as \<^verbatim>\<open>__init__\<close> leaves it, with an empty queue and an empty bucket.\<close>

definition init_coordinator :: Coordinator where
  "init_coordinator =
     \<lparr>active_jobs = Map.empty, completed_jobs = Map.empty, queue = [], next_message = 0,
      sent = [], bucket = [], batch_calls = [], errors_logged = []\<rparr>"

text \<open>
  A delivery fails when the generation or the storing of its result raises; the calls of
  the retry handling itself go through.
\<close>

definition processing_fails :: "Env \<Rightarrow> bool" where
  "processing_fails env =
     ((generate_raises env \<noteq> None \<or> store_raises env \<noteq> None)
      \<and> requeue_raises env = None \<and> failure_store_raises env = None
      \<and> retry_delete_raises env = None)"

text \<open>Every job waiting in the queue is within its retry budget.\<close>

definition within_budget :: "Message \<Rightarrow> bool" where
  "within_budget m =
     (case MessageBody m of
        Json job \<Rightarrow> retry_count job \<le> max_retries job
      | Malformed e \<Rightarrow> True)"

definition queue_bounded :: "Coordinator \<Rightarrow> bool" where
  "queue_bounded s = list_all within_budget (queue s)"

text \<open>A stored result reports success or carries the text of an error.\<close>

definition explained :: "TestResult \<Rightarrow> bool" where
  "explained r = (success r \<or> error_message r \<noteq> None)"

definition results_explained :: "Coordinator \<Rightarrow> bool" where
  "results_explained s = list_all (\<lambda>kr. explained (snd kr)) (bucket s)"

text \<open>The scenario of the retries: a job as its constructor makes it, and a backend that is down.\<close>

definition new_job :: TestJob where
  "new_job =
     \<lparr>ident = ''job-1'', code = ''def f(): pass'', language = ''python'', test_type = ''unit'',
      priority = 1, retry_count = 0, max_retries = 3, created_at = ''2025-01-01T00:00:00''\<rparr>"

definition backend_down :: Env where
  "backend_down =
     \<lparr>generate_raises = Some ''backend down'', store_raises = None, delete_raises = None,
      requeue_raises = None, failure_store_raises = None, retry_delete_raises = None,
      elapsed_ms = 0, now = ''2025-01-01T00:00:09'', today = ''2025/01/01''\<rparr>"

text \<open>
  The fourth delivery of that job, with the coordinator as the three requeues before it
  leave it; and a backend whose exception has no text (\<^verbatim>\<open>raise RuntimeError()\<close>).
\<close>

definition last_delivery :: Message where
  "last_delivery = \<lparr>ReceiptHandle = ''msg-3'', MessageBody = Json (new_job\<lparr>retry_count := 3\<rparr>)\<rparr>"

definition tracking :: Coordinator where
  "tracking =
     init_coordinator
       \<lparr>active_jobs := [''job-1'' \<mapsto> new_job\<lparr>retry_count := 3\<rparr>],
        queue := [last_delivery],
        next_message := 4,
        sent := [new_job, new_job\<lparr>retry_count := 1\<rparr>, new_job\<lparr>retry_count := 2\<rparr>,
                 new_job\<lparr>retry_count := 3\<rparr>]\<rparr>"

definition silent_failure :: Env where
  "silent_failure = backend_down\<lparr>generate_raises := Some []\<rparr>"

text \<open>
  A run of batch calls, from the \<open>k\<close>-th call of the queue on: every call answers with a
  response, and the response reports as successful only jobs of its batch.
\<close>

fun answers :: "BatchQueue \<Rightarrow> nat \<Rightarrow> TestJob list list \<Rightarrow> bool" where
  "answers q k [] = True"
| "answers q k (batch # rest) =
     (case q k (map entry_of batch) of
        Returned response \<Rightarrow>
          list_all (\<lambda>accepted. fst accepted \<in> set (map ident batch)) (Successful response)
          \<and> answers q (Suc k) rest
      | Raised e \<Rightarrow> False)"

text \<open>What such a run reports batch by batch: the message ids, and the lines of the failed entries.\<close>

fun reported_ids :: "BatchQueue \<Rightarrow> nat \<Rightarrow> TestJob list list \<Rightarrow> string list" where
  "reported_ids q k [] = []"
| "reported_ids q k (batch # rest) =
     (case q k (map entry_of batch) of
        Returned response \<Rightarrow> map snd (Successful response)
      | Raised e \<Rightarrow> [])
     @ reported_ids q (Suc k) rest"

fun reported_failures :: "BatchQueue \<Rightarrow> nat \<Rightarrow> TestJob list list \<Rightarrow> string list" where
  "reported_failures q k [] = []"
| "reported_failures q k (batch # rest) =
     (case q k (map entry_of batch) of
        Returned response \<Rightarrow> map failure_line (Failed response)
      | Raised e \<Rightarrow> [])
     @ reported_failures q (Suc k) rest"

text \<open>
  The scenario of the batches: jobs numbered from zero; a queue that accepts every entry;
  one that rejects every entry; and one whose second call raises.
\<close>

definition numbered_jobs :: "nat \<Rightarrow> TestJob list" where
  "numbered_jobs n = map (\<lambda>k. new_job\<lparr>ident := ''job-'' @ str_nat k\<rparr>) [0..<n]"

definition accept_all :: BatchQueue where
  "accept_all k entries =
     Returned \<lparr>Successful = map (\<lambda>entry. (Id entry, ''msg-'' @ Id entry)) entries, Failed = []\<rparr>"

definition reject_all :: BatchQueue where
  "reject_all k entries =
     Returned \<lparr>Successful = [], Failed = map (\<lambda>entry. (Id entry, ''throttled'')) entries\<rparr>"

definition second_call_raises :: BatchQueue where
  "second_call_raises k entries =
     (if k = 1 then Raised ''ServiceUnavailable'' else accept_all k entries)"

text \<open>A job has a tier of the hybrid strategy when its priority is 1, 2 or 3.\<close>

definition tiered :: "TestJob \<Rightarrow> bool" where
  "tiered job = (priority job = 1 \<or> priority job = 2 \<or> priority job = 3)"

text \<open>
  The scenario of the executor: the configuration with the defaults of the dataclass, and
  a coordinator under which every submission goes through and no job is ever seen
  completed.
\<close>

definition config :: "ExecutionStrategy \<Rightarrow> ExecutionConfig" where
  "config s =
     \<lparr>strategy = s, max_workers = 4, timeout_seconds = 300, retry_attempts = 3,
      batch_size = 10, priority_levels = [1, 2, 3]\<rparr>"

definition never_completes :: ExecEnv where
  "never_completes =
     \<lparr>submit_raises = (\<lambda>job. None),
      observed = (\<lambda>jid k. NotFound),
      finish_order = (\<lambda>jid. 0),
      queue_stats = Map.empty,
      wall_clock_ms = 300000,
      clock = ''2025-01-01T00:05:00''\<rparr>"

text \<open>Two jobs, the second of a priority that has no tier.\<close>

definition mixed_jobs :: "TestJob list" where
  "mixed_jobs = [new_job, new_job\<lparr>ident := ''job-2'', priority := 5\<rparr>]"

text \<open>
  The text of the exception that ends the \<^verbatim>\<open>try\<close> of a delivery whose generation or whose
  storing raises: the generation comes first.
\<close>

definition failure_text :: "Env \<Rightarrow> string" where
  "failure_text env =
     (case generate_raises env of
        Some e \<Rightarrow> e
      | None \<Rightarrow> (case store_raises env of Some e \<Rightarrow> e | None \<Rightarrow> []))"

text \<open>
  A delivery in which the generation and the storing go through and the queue then
  refuses to delete the message, once.
\<close>

definition delete_fails :: Env where
  "delete_fails =
     backend_down\<lparr>generate_raises := None, delete_raises := Some ''ReceiptHandleIsInvalid''\<rparr>"

section \<open>Properties\<close>

subsection \<open>The classifier\<close>

lemma scan_patterns_find:
  "scan_patterns error_patterns msg =
     (case find (\<lambda>t. group_matches t msg) enumeration_order of Some t \<Rightarrow> t | None \<Rightarrow> GENERAL)"
  by (simp add: error_patterns_def enumeration_order_def group_matches_def patterns_of_def
      any_search_def)

text \<open>
  Claim C4. For every message and context the classifier answers in this order: the
  type-system type when the file extension is \<^verbatim>\<open>ts\<close> or \<^verbatim>\<open>tsx\<close> and a type-system pattern
  matches, whatever else matches; else the test type when the path names a test file and
  a test pattern matches; else the first type, in the order of the enumeration, one of
  whose patterns matches; else the general type.
\<close>

theorem classify_error_type_order: "classify_error_type msg ctx = spec_classify msg ctx"
  unfolding classify_error_type_def spec_classify_def scan_patterns_find
  by (simp add: typed_source_file_def test_file_def group_matches_def)

text \<open>
  The order at work. A type-system message in \<^verbatim>\<open>src/app.ts\<close> is a type-system error.
  A message with a type-system and a test pattern is a type-system error in
  \<^verbatim>\<open>a.test.ts\<close>, where the extension decides first, and a test error in \<^verbatim>\<open>a.test.js\<close>,
  although the type-system patterns come first in the table.
\<close>

lemma classify_error_type_examples:
  "classify_error_type (''TS2345: Argument of type '' @ sq @ ''string'' @ sq @ '' is not assignable'')
     \<lparr>file_path = ''src/app.ts'', line_number = None, column_number = None,
      function_name = None, class_name = None, surrounding_code = None\<rparr> = TYPESCRIPT"
  "classify_error_type ''TS1: Test failed''
     \<lparr>file_path = ''a.test.ts'', line_number = None, column_number = None,
      function_name = None, class_name = None, surrounding_code = None\<rparr> = TYPESCRIPT"
  "classify_error_type ''TS1: Test failed''
     \<lparr>file_path = ''a.test.js'', line_number = None, column_number = None,
      function_name = None, class_name = None, surrounding_code = None\<rparr> = TEST"
  by code_simp+

lemma round_exact: "py_round2 (of_int n / 100) = of_int n / 100"
  by (simp add: py_round2_def round_half_even_def)

lemma score_hundredths:
  "(10 - of_int (severity_value s)) * type_weight t * (if boosted c then 12 / 10 else 1)
   = (of_int ((10 - severity_value s) * (floor (type_weight t * 10)) * (if boosted c then 12 else 10)) / 100 :: rat)"
  by (cases t; simp add: type_weight_def type_multipliers_def)

lemma score_rounded:
  "calculate_priority_score t s c =
     py_round2 ((10 - of_int (severity_value s)) * type_weight t * (if boosted c then 12 / 10 else 1))"
  by (simp add: calculate_priority_score_def type_weight_def boosted_def Let_def)

lemma score_exact:
  "calculate_priority_score t s c =
     (10 - of_int (severity_value s)) * type_weight t * (if boosted c then 12 / 10 else 1)"
  unfolding score_rounded score_hundredths round_exact ..

lemma type_weight_pos: "0 < type_weight t"
  by (cases t; simp add: type_weight_def type_multipliers_def)

lemma score_decreases:
  "severity_value s < severity_value s' \<Longrightarrow>
   calculate_priority_score t s' c < calculate_priority_score t s c"
proof -
  assume less: "severity_value s < severity_value s'"
  let ?w = "type_weight t * (if boosted c then 12 / 10 else 1)"
  have pos: "0 < ?w" using type_weight_pos [of t] by simp
  have "(10 - rat_of_int (severity_value s')) < 10 - rat_of_int (severity_value s)"
    using less by simp
  then have "(10 - rat_of_int (severity_value s')) * ?w < (10 - rat_of_int (severity_value s)) * ?w"
    using pos by (rule mult_strict_right_mono)
  then show ?thesis by (simp add: score_exact mult.assoc)
qed

text \<open>
  Claim C1, as stated, fails: the code takes the base \<open>10 - severity\<close>, not the largest
  ordinal plus one minus the severity. A critical test error outside the critical paths
  scores 9, where the claim's formula gives 4.
\<close>

theorem priority_score_base_counterexample:
  "calculate_priority_score TEST CRITICAL
     \<lparr>file_path = ''lib/util.py'', line_number = None, column_number = None,
      function_name = None, class_name = None, surrounding_code = None\<rparr> = 9
   \<and> spec_priority_score TEST CRITICAL
     \<lparr>file_path = ''lib/util.py'', line_number = None, column_number = None,
      function_name = None, class_name = None, surrounding_code = None\<rparr> = 4"
  by code_simp

text \<open>
  Claim C1, amended. For every error type, severity and context the score is
  \<open>(10 - severity ordinal)\<close> times the weight of the type (type-system 1.2, build 1.3,
  lint 0.8), times 1.2 when the path is not empty and in lower case contains a critical
  substring, rounded to two decimals; so that for a given type and context a critical
  error scores above a high one, a high one above a medium one, and a medium one above
  a low one.
\<close>

theorem priority_score_formula:
  "calculate_priority_score t s c =
     py_round2 ((10 - of_int (severity_value s)) * type_weight t * (if boosted c then 12 / 10 else 1))
   \<and> type_weight TYPESCRIPT = 12 / 10 \<and> type_weight BUILD = 13 / 10 \<and> type_weight LINT = 8 / 10
   \<and> calculate_priority_score t LOW c < calculate_priority_score t MEDIUM c
   \<and> calculate_priority_score t MEDIUM c < calculate_priority_score t HIGH c
   \<and> calculate_priority_score t HIGH c < calculate_priority_score t CRITICAL c"
proof -
  have "type_weight TYPESCRIPT = 12 / 10" "type_weight BUILD = 13 / 10" "type_weight LINT = 8 / 10"
    by (simp_all add: type_weight_def type_multipliers_def)
  moreover have "calculate_priority_score t LOW c < calculate_priority_score t MEDIUM c"
    by (rule score_decreases) simp
  moreover have "calculate_priority_score t MEDIUM c < calculate_priority_score t HIGH c"
    by (rule score_decreases) simp
  moreover have "calculate_priority_score t HIGH c < calculate_priority_score t CRITICAL c"
    by (rule score_decreases) simp
  ultimately show ?thesis using score_rounded [of t s c] by simp
qed

lemma wait_for_strategy [simp]: "wait_for env (cfg\<lparr>strategy := x\<rparr>) = wait_for env cfg"
  by (rule ext) (simp add: wait_for_def)

lemma submit_and_wait_strategy [simp]:
  "submit_and_wait env (cfg\<lparr>strategy := x\<rparr>) job = submit_and_wait env cfg job"
  by (simp add: submit_and_wait_def split: option.split)

lemma sequential_loop_strategy [simp]:
  "sequential_loop env (cfg\<lparr>strategy := x\<rparr>) cb n i jobs = sequential_loop env cfg cb n i jobs"
  by (induction jobs arbitrary: i) simp_all

lemma files_loop_strategy [simp]:
  "files_loop env (cfg\<lparr>strategy := x\<rparr>) cb n batches rs = files_loop env cfg cb n batches rs"
  by (induction batches arbitrary: rs) (auto simp: Let_def split: option.split)

lemma execute_single_job_strategy [simp]:
  "execute_single_job env (cfg\<lparr>strategy := x\<rparr>) = execute_single_job env cfg"
  by (rule ext) (simp add: execute_single_job_def)

text \<open>
  Claim C5. The load-balanced strategy reads the queue statistics once and then runs
  exactly one of three strategies on all the jobs: the sequential one when more than 50
  messages are available, else the bounded-parallel one when fewer than 10 are in
  flight, else the batched one. So 60 available messages give the sequential strategy,
  5 available and 2 in flight the bounded-parallel one, 20 available and 15 in flight
  the batched one.
\<close>

theorem load_balanced_selection:
  "execute_load_balanced env cfg jobs cb =
     run_strategy env
       (cfg\<lparr>strategy := backlog_choice (stat (queue_stats env) ''messages_available'')
                                       (stat (queue_stats env) ''messages_in_flight'')\<rparr>)
       jobs cb
   \<and> backlog_choice available in_flight \<in> {SEQUENTIAL, PARALLEL_FUNCTIONS, PARALLEL_FILES}
   \<and> backlog_choice 60 in_flight = SEQUENTIAL
   \<and> backlog_choice 5 2 = PARALLEL_FUNCTIONS
   \<and> backlog_choice 20 15 = PARALLEL_FILES"
  by (simp add: execute_load_balanced_def run_strategy_def backlog_choice_def
      execute_sequential_def execute_parallel_files_def execute_parallel_functions_def)

subsection \<open>The consumer\<close>

lemma wait_loop_never:
  "(\<And>j r. status_at j \<noteq> Completed r) \<Longrightarrow> wait_loop status_at timeout k = None"
proof (induction status_at timeout k rule: wait_loop.induct)
  case (1 status_at timeout k)
  show ?case
  proof (cases "status_at k")
    case (Completed r)
    then show ?thesis using "1.prems" by simp
  next
    case (Processing job)
    then show ?thesis using 1 by (simp add: wait_loop.simps [of status_at timeout k])
  next
    case NotFound
    then show ?thesis using 1 by (simp add: wait_loop.simps [of status_at timeout k])
  qed
qed

lemma log_error_fields [simp]:
  "active_jobs (log_error l s) = active_jobs s"
  "completed_jobs (log_error l s) = completed_jobs s"
  "queue (log_error l s) = queue s"
  "next_message (log_error l s) = next_message s"
  "sent (log_error l s) = sent s"
  "bucket (log_error l s) = bucket s"
  "batch_calls (log_error l s) = batch_calls s"
  by (simp_all add: log_error_def)

lemma handle_failure_exhausted:
  assumes "MessageBody m = Json job" and "max_retries job \<le> retry_count job"
  shows "active_jobs (handle_failure env m e s) = active_jobs s"
    and "completed_jobs (handle_failure env m e s) = completed_jobs s"
    and "sent (handle_failure env m e s) = sent s"
    and "failure_store_raises env = None \<Longrightarrow>
           bucket (handle_failure env m e s) =
             bucket s @ [(''test-results/'' @ today env @ ''/'' @ ident job @ ''.json'',
                          failure_result (now env) job e)]"
  using assms
  by (auto simp: handle_failure_def Let_def give_up_def store_results_def sqs_delete_message_def
      split: option.splits)

lemma try_process_before_completion:
  assumes "MessageBody m = Json job"
    and "generate_raises env \<noteq> None \<or> store_raises env \<noteq> None"
  shows "\<exists>s'. try_process env m s = (Raised (failure_text env), s')
            \<and> active_jobs s' = active_jobs s \<and> completed_jobs s' = completed_jobs s
            \<and> bucket s' = bucket s"
  using assms
  by (auto simp: try_process_def failure_text_def store_results_def Let_def
      split: option.splits)

text \<open>
  Claim C9, as stated, fails: the \<^verbatim>\<open>try\<close> records the completion before it deletes the
  message. When that deletion raises for a job whose retries are used up, the exhausted
  branch runs on a job that is already completed: in the scenario the status goes from
  \<^verbatim>\<open>processing\<close> to \<^verbatim>\<open>completed\<close>, and the bucket holds the successful result
  followed by the failed one.
\<close>

theorem completed_then_exhausted_counterexample:
  "status_name (get_job_status tracking ''job-1'') = ''processing''
   \<and> status_name (get_job_status (process_single_job delete_fails last_delivery tracking) ''job-1'')
       = ''completed''
   \<and> map success (map snd (bucket (process_single_job delete_fails last_delivery tracking)))
       = [True, False]"
  by (simp add: process_single_job_def try_process_def handle_failure_def give_up_def
      store_results_def sqs_delete_message_def log_error_def delete_fails_def
      backend_down_def last_delivery_def tracking_def init_coordinator_def new_job_def
      failure_result_def generate_tests_def get_job_status_def Let_def)

text \<open>
  Claim C9, amended. When the retries of the delivered job are used up, the \<^verbatim>\<open>except\<close>
  block leaves both maps of the coordinator as it finds them. So when the delivery fails
  before its completion is recorded (the generation or the storing raises), the whole
  delivery leaves both maps unchanged and stores the failure result in the bucket (when
  the store accepts it), and \<^verbatim>\<open>get_job_status\<close> answers for every job id what it
  answered before the delivery. For a job that was not completed before, the answer stays
  \<^verbatim>\<open>processing\<close>, or \<^verbatim>\<open>not_found\<close> when the job is not in the active map, and a wait on
  that state polls until its timeout and raises.
\<close>

theorem exhausted_delivery_frame:
  assumes "MessageBody m = Json job" and "max_retries job \<le> retry_count job"
    and "generate_raises env \<noteq> None \<or> store_raises env \<noteq> None"
  shows "completed_jobs (handle_failure env m e s0) = completed_jobs s0
       \<and> active_jobs (handle_failure env m e s0) = active_jobs s0
       \<and> completed_jobs (process_single_job env m s) = completed_jobs s
       \<and> active_jobs (process_single_job env m s) = active_jobs s
       \<and> (failure_store_raises env = None \<longrightarrow>
            bucket (process_single_job env m s) =
              bucket s @ [(''test-results/'' @ today env @ ''/'' @ ident job @ ''.json'',
                           failure_result (now env) job (failure_text env))])
       \<and> get_job_status (process_single_job env m s) jid = get_job_status s jid
       \<and> (completed_jobs s (ident job) = None \<longrightarrow>
            status_name (get_job_status (process_single_job env m s) (ident job)) =
              (if ident job \<in> dom (active_jobs s) then ''processing'' else ''not_found'')
            \<and> wait_for_job_completion
                 (\<lambda>k. get_job_status (process_single_job env m s) (ident job)) (ident job) timeout
               = Raised (timeout_text (ident job) timeout))"
proof -
  let ?s' = "process_single_job env m s"
  obtain s1 where tried: "try_process env m s = (Raised (failure_text env), s1)"
    and s1: "active_jobs s1 = active_jobs s" "completed_jobs s1 = completed_jobs s"
      "bucket s1 = bucket s"
    using try_process_before_completion [OF assms(1,3), of s] by blast
  have run: "?s' = handle_failure env m (failure_text env) s1"
    by (simp add: process_single_job_def tried)
  note block = handle_failure_exhausted [OF assms(1,2), of env e s0]
  note handled = handle_failure_exhausted [OF assms(1,2), of env "failure_text env" s1]
  have maps: "active_jobs ?s' = active_jobs s" "completed_jobs ?s' = completed_jobs s"
    unfolding run by (simp_all add: handled s1)
  have stored: "failure_store_raises env = None \<Longrightarrow>
      bucket ?s' = bucket s @ [(''test-results/'' @ today env @ ''/'' @ ident job @ ''.json'',
                                failure_result (now env) job (failure_text env))]"
    unfolding run by (simp add: handled s1)
  have status: "get_job_status ?s' j = get_job_status s j" for j
    unfolding get_job_status_def maps ..
  have waiting: "completed_jobs s (ident job) = None \<Longrightarrow>
      status_name (get_job_status ?s' (ident job)) =
        (if ident job \<in> dom (active_jobs s) then ''processing'' else ''not_found'')
      \<and> wait_for_job_completion (\<lambda>k. get_job_status ?s' (ident job)) (ident job) timeout
          = Raised (timeout_text (ident job) timeout)"
  proof -
    assume open_job: "completed_jobs s (ident job) = None"
    have never: "get_job_status ?s' (ident job) \<noteq> Completed r" for r
      unfolding status by (simp add: get_job_status_def open_job split: option.split)
    have "wait_loop (\<lambda>k. get_job_status ?s' (ident job)) timeout 0 = None"
      by (rule wait_loop_never) (rule never)
    moreover have "status_name (get_job_status s (ident job)) =
        (if ident job \<in> dom (active_jobs s) then ''processing'' else ''not_found'')"
      by (auto simp: get_job_status_def open_job split: option.split)
    ultimately show ?thesis
      unfolding status by (simp add: wait_for_job_completion_def)
  qed
  show ?thesis using block(1,2) maps stored status waiting by blast
qed

text \<open>
  The fourth delivery of the scenario, at a coordinator that tracks the job: the failure
  result is stored, the job stays \<^verbatim>\<open>processing\<close>, a wait of 300 seconds times out.
\<close>

theorem exhausted_delivery_frame_witness:
  "completed_jobs (handle_failure backend_down last_delivery ''backend down'' tracking)
     = completed_jobs tracking
   \<and> active_jobs (handle_failure backend_down last_delivery ''backend down'' tracking)
     = active_jobs tracking
   \<and> completed_jobs (process_single_job backend_down last_delivery tracking)
     = completed_jobs tracking
   \<and> active_jobs (process_single_job backend_down last_delivery tracking)
     = active_jobs tracking
   \<and> bucket (process_single_job backend_down last_delivery tracking)
     = [(''test-results/2025/01/01/job-1.json'',
         failure_result ''2025-01-01T00:00:09'' (new_job\<lparr>retry_count := 3\<rparr>) ''backend down'')]
   \<and> get_job_status (process_single_job backend_down last_delivery tracking) ''job-1''
     = get_job_status tracking ''job-1''
   \<and> status_name (get_job_status (process_single_job backend_down last_delivery tracking) ''job-1'')
     = ''processing''
   \<and> wait_for_job_completion
        (\<lambda>k. get_job_status (process_single_job backend_down last_delivery tracking) ''job-1'')
        ''job-1'' 300
     = Raised (timeout_text ''job-1'' 300)"
proof -
  have body: "MessageBody last_delivery = Json (new_job\<lparr>retry_count := 3\<rparr>)"
    by (simp add: last_delivery_def)
  have spent: "max_retries (new_job\<lparr>retry_count := 3\<rparr>) \<le> retry_count (new_job\<lparr>retry_count := 3\<rparr>)"
    by (simp add: new_job_def)
  have failed: "generate_raises backend_down \<noteq> None \<or> store_raises backend_down \<noteq> None"
    by (simp add: backend_down_def)
  have scene:
    "failure_store_raises backend_down = None"
    "failure_text backend_down = ''backend down''"
    "today backend_down = ''2025/01/01''"
    "now backend_down = ''2025-01-01T00:00:09''"
    "ident new_job = ''job-1''"
    "completed_jobs tracking ''job-1'' = None"
    "''job-1'' \<in> dom (active_jobs tracking)"
    "bucket tracking = []"
    by (simp_all add: backend_down_def new_job_def tracking_def init_coordinator_def
        failure_text_def)
  note t = exhausted_delivery_frame [OF body spent failed, where e = "''backend down''"
      and ?s0.0 = tracking and s = tracking and jid = "''job-1''" and timeout = 300]
  have a: "completed_jobs (handle_failure backend_down last_delivery ''backend down'' tracking)
      = completed_jobs tracking"
    and b: "active_jobs (handle_failure backend_down last_delivery ''backend down'' tracking)
      = active_jobs tracking"
    and c: "completed_jobs (process_single_job backend_down last_delivery tracking)
      = completed_jobs tracking"
    and d: "active_jobs (process_single_job backend_down last_delivery tracking)
      = active_jobs tracking"
    and f: "get_job_status (process_single_job backend_down last_delivery tracking) ''job-1''
      = get_job_status tracking ''job-1''"
    using t by blast+
  have g: "bucket (process_single_job backend_down last_delivery tracking)
      = [(''test-results/2025/01/01/job-1.json'',
          failure_result ''2025-01-01T00:00:09'' (new_job\<lparr>retry_count := 3\<rparr>) ''backend down'')]"
    using t scene by simp
  have h: "status_name (get_job_status (process_single_job backend_down last_delivery tracking)
        ''job-1'') = ''processing''
      \<and> wait_for_job_completion
          (\<lambda>k. get_job_status (process_single_job backend_down last_delivery tracking) ''job-1'')
          ''job-1'' 300
        = Raised (timeout_text ''job-1'' 300)"
    using t [THEN conjunct2, THEN conjunct2, THEN conjunct2, THEN conjunct2, THEN conjunct2,
        THEN conjunct2] scene
    by simp
  show ?thesis using a b c d f g h by blast
qed

subsection \<open>One delivery, and many\<close>

lemma parse_job_Returned [simp]: "parse_job b = Returned job \<longleftrightarrow> b = Json job"
  by (cases b) auto

lemma within_budget_filter:
  "list_all within_budget ms \<Longrightarrow> list_all within_budget (filter P ms)"
  by (induction ms) simp_all

lemma try_process_queue:
  "try_process env m s = (r, s') \<Longrightarrow> queue_bounded s \<Longrightarrow> queue_bounded s'"
  by (auto simp: try_process_def queue_bounded_def store_results_def sqs_delete_message_def
      Let_def within_budget_filter log_error_def
      split: outcome.splits option.splits prod.splits)

lemma try_process_sent:
  "try_process env m s = (r, s') \<Longrightarrow> sent s' = sent s"
  by (auto simp: try_process_def store_results_def sqs_delete_message_def
      Let_def log_error_def
      split: outcome.splits option.splits prod.splits)

lemma try_process_bucket:
  "try_process env m s = (r, s') \<Longrightarrow> results_explained s \<Longrightarrow> results_explained s'"
  by (auto simp: try_process_def results_explained_def store_results_def sqs_delete_message_def
      Let_def log_error_def explained_def generate_tests_def
      split: outcome.splits option.splits prod.splits)

lemma handle_failure_queue:
  "queue_bounded s \<Longrightarrow> queue_bounded (handle_failure env m e s)"
  by (auto simp: handle_failure_def queue_bounded_def requeue_def give_up_def submit_test_job_def
      sqs_send_message_def store_results_def sqs_delete_message_def Let_def within_budget_filter
      log_error_def within_budget_def
      split: outcome.splits option.splits prod.splits if_splits)

lemma handle_failure_bucket:
  "results_explained s \<Longrightarrow> results_explained (handle_failure env m e s)"
  by (auto simp: handle_failure_def results_explained_def requeue_def give_up_def
      submit_test_job_def sqs_send_message_def store_results_def sqs_delete_message_def Let_def
      log_error_def explained_def failure_result_def
      split: outcome.splits option.splits prod.splits if_splits)

lemma handle_failure_sent:
  "sent (handle_failure env m e s) = sent s
   \<or> (\<exists>job. MessageBody m = Json job
         \<and> sent (handle_failure env m e s) = sent s @ [job\<lparr>retry_count := retry_count job + 1\<rparr>]
         \<and> retry_count job + 1 \<le> max_retries job)"
  by (auto simp: handle_failure_def requeue_def give_up_def
      submit_test_job_def sqs_send_message_def store_results_def sqs_delete_message_def Let_def
      log_error_def
      split: outcome.splits option.splits prod.splits if_splits)

lemma process_single_job_queue:
  "queue_bounded s \<Longrightarrow> queue_bounded (process_single_job env m s)"
  by (auto simp: process_single_job_def handle_failure_queue
      split: prod.splits outcome.splits dest: try_process_queue)

lemma process_single_job_bucket:
  "results_explained s \<Longrightarrow> results_explained (process_single_job env m s)"
  by (auto simp: process_single_job_def handle_failure_bucket
      split: prod.splits outcome.splits dest: try_process_bucket)

lemma process_single_job_sent:
  "sent (process_single_job env m s) = sent s
   \<or> (\<exists>job. MessageBody m = Json job
         \<and> sent (process_single_job env m s) = sent s @ [job\<lparr>retry_count := retry_count job + 1\<rparr>]
         \<and> retry_count job + 1 \<le> max_retries job)"
proof (cases "try_process env m s")
  case (Pair r s')
  then have same: "sent s' = sent s" by (rule try_process_sent)
  show ?thesis
  proof (cases r)
    case (Returned u)
    then show ?thesis using Pair same by (simp add: process_single_job_def)
  next
    case (Raised e)
    then show ?thesis
      using Pair same handle_failure_sent [of env m e s'] by (simp add: process_single_job_def)
  qed
qed

lemma consume_invariants:
  "queue_bounded s \<Longrightarrow> results_explained s \<Longrightarrow>
   queue_bounded (consume envs s) \<and> results_explained (consume envs s)"
proof (induction envs arbitrary: s)
  case Nil
  then show ?case by simp
next
  case (Cons env envs)
  show ?case
  proof (cases "queue s")
    case Nil
    then show ?thesis using Cons.prems by simp
  next
    case (Cons m rest)
    then show ?thesis
      using Cons.IH [of "process_single_job env m s"] Cons.prems
      by (simp add: process_single_job_queue process_single_job_bucket)
  qed
qed


text \<open>
  Claim C3, amended. Through every sequence of deliveries, the jobs in the queue stay
  within their budget when they start within it (\<open>retry_count \<le> max_retries\<close>), and
  every stored result reports success or carries an error message, the text of the
  exception. A delivery sends no job, or the delivered job with a retry count larger by
  one and at most \<open>max_retries\<close>.
\<close>

theorem retry_budget_invariant:
  assumes "queue_bounded s" and "results_explained s"
  shows "queue_bounded (consume envs s) \<and> results_explained (consume envs s)
       \<and> (sent (process_single_job env m s) = sent s
          \<or> (\<exists>job. MessageBody m = Json job
                \<and> sent (process_single_job env m s)
                    = sent s @ [job\<lparr>retry_count := retry_count job + 1\<rparr>]
                \<and> retry_count job + 1 \<le> max_retries job))"
  using consume_invariants [OF assms, of envs] process_single_job_sent [of env m s] by blast

lemma tracking_facts:
  "queue_bounded tracking" "results_explained tracking"
  by (simp_all add: queue_bounded_def results_explained_def tracking_def init_coordinator_def
      within_budget_def last_delivery_def new_job_def)

text \<open>
  The invariants at the coordinator of the scenario, before and after its last delivery.
\<close>

theorem retry_budget_invariant_witness:
  "queue_bounded tracking \<and> results_explained tracking
   \<and> queue_bounded (consume [backend_down] tracking)
   \<and> results_explained (consume [backend_down] tracking)
   \<and> (sent (process_single_job backend_down last_delivery tracking) = sent tracking
      \<or> (\<exists>job. MessageBody last_delivery = Json job
            \<and> sent (process_single_job backend_down last_delivery tracking)
                = sent tracking @ [job\<lparr>retry_count := retry_count job + 1\<rparr>]
            \<and> retry_count job + 1 \<le> max_retries job))"
  using retry_budget_invariant [OF tracking_facts, of "[backend_down]" backend_down last_delivery]
    tracking_facts
  by blast

text \<open>
  Claim C3, as stated, fails: the error message is \<^verbatim>\<open>str(e)\<close>, which is empty for an
  exception raised without a text. The last delivery of the scenario, under a backend
  that raises such an exception, stores a failed result whose message is the empty
  string.
\<close>

theorem error_message_empty_counterexample:
  "bucket (process_single_job silent_failure last_delivery tracking)
     = [(''test-results/2025/01/01/job-1.json'',
         failure_result ''2025-01-01T00:00:09'' (new_job\<lparr>retry_count := 3\<rparr>) [])]
   \<and> success (failure_result ''2025-01-01T00:00:09'' (new_job\<lparr>retry_count := 3\<rparr>) []) = False
   \<and> error_message (failure_result ''2025-01-01T00:00:09'' (new_job\<lparr>retry_count := 3\<rparr>) [])
     = Some []"
  by (simp add: process_single_job_def try_process_def handle_failure_def give_up_def
      store_results_def sqs_delete_message_def log_error_def silent_failure_def
      backend_down_def last_delivery_def tracking_def init_coordinator_def new_job_def
      failure_result_def)


lemma str_nat_digits:
  "str_nat 0 = ''0''" "str_nat (Suc 0) = ''1''" "str_nat 1 = ''1''" "str_nat 2 = ''2''"
  "str_nat 3 = ''3''" "str_nat 4 = ''4''"
  by code_simp+

lemma failing_delivery_requeues:
  assumes "processing_fails env" and "retry_count job < max_retries job"
    and "h \<noteq> ''msg-'' @ str_nat (next_message s)"
    and "queue s = [\<lparr>ReceiptHandle = h, MessageBody = Json job\<rparr>]"
  shows "queue (process_single_job env \<lparr>ReceiptHandle = h, MessageBody = Json job\<rparr> s)
           = [\<lparr>ReceiptHandle = ''msg-'' @ str_nat (next_message s),
               MessageBody = Json (job\<lparr>retry_count := retry_count job + 1\<rparr>)\<rparr>]"
    and "next_message (process_single_job env \<lparr>ReceiptHandle = h, MessageBody = Json job\<rparr> s)
           = Suc (next_message s)"
    and "sent (process_single_job env \<lparr>ReceiptHandle = h, MessageBody = Json job\<rparr> s)
           = sent s @ [job\<lparr>retry_count := retry_count job + 1\<rparr>]"
    and "bucket (process_single_job env \<lparr>ReceiptHandle = h, MessageBody = Json job\<rparr> s)
           = bucket s"
  using assms
  by (auto simp: processing_fails_def process_single_job_def try_process_def handle_failure_def
      requeue_def submit_test_job_def sqs_send_message_def store_results_def
      sqs_delete_message_def log_error_def Let_def split: option.splits)

lemma failing_delivery_gives_up:
  assumes "processing_fails env" and "\<not> retry_count job < max_retries job"
    and "queue s = [\<lparr>ReceiptHandle = h, MessageBody = Json job\<rparr>]"
  shows "queue (process_single_job env \<lparr>ReceiptHandle = h, MessageBody = Json job\<rparr> s) = []"
    and "sent (process_single_job env \<lparr>ReceiptHandle = h, MessageBody = Json job\<rparr> s) = sent s"
    and "\<exists>e. bucket (process_single_job env \<lparr>ReceiptHandle = h, MessageBody = Json job\<rparr> s)
           = bucket s @ [(''test-results/'' @ today env @ ''/'' @ ident job @ ''.json'',
                          failure_result (now env) job e)]"
  using assms
  by (auto simp: processing_fails_def process_single_job_def try_process_def handle_failure_def
      give_up_def store_results_def sqs_delete_message_def log_error_def Let_def
      split: option.splits)

lemma consume_empty_queue: "queue s = [] \<Longrightarrow> consume envs s = s"
  by (cases envs) simp_all

lemma three_failures_requeue:
  assumes fresh: "retry_count job = 0" and budget: "max_retries job = 3"
    and f1: "processing_fails e1" and f2: "processing_fails e2" and f3: "processing_fails e3"
  shows "\<exists>s3. consume ([e1, e2, e3] @ later) (snd (submit_test_job None job init_coordinator))
                = consume later s3
              \<and> queue s3 = [\<lparr>ReceiptHandle = ''msg-3'',
                              MessageBody = Json (job\<lparr>retry_count := 3\<rparr>)\<rparr>]
              \<and> sent s3 = [job, job\<lparr>retry_count := 1\<rparr>, job\<lparr>retry_count := 2\<rparr>,
                            job\<lparr>retry_count := 3\<rparr>]
              \<and> bucket s3 = []"
proof -
  define s0 where "s0 = snd (submit_test_job None job init_coordinator)"
  define m0 where "m0 = \<lparr>ReceiptHandle = ''msg-0'', MessageBody = Json job\<rparr>"
  define m1 where "m1 = \<lparr>ReceiptHandle = ''msg-1'', MessageBody = Json (job\<lparr>retry_count := 1\<rparr>)\<rparr>"
  define m2 where "m2 = \<lparr>ReceiptHandle = ''msg-2'', MessageBody = Json (job\<lparr>retry_count := 2\<rparr>)\<rparr>"
  define m3 where "m3 = \<lparr>ReceiptHandle = ''msg-3'', MessageBody = Json (job\<lparr>retry_count := 3\<rparr>)\<rparr>"
  define s1 where "s1 = process_single_job e1 m0 s0"
  define s2 where "s2 = process_single_job e2 m1 s1"
  define s3 where "s3 = process_single_job e3 m2 s2"
  have s0: "queue s0 = [m0]" "next_message s0 = 1" "sent s0 = [job]" "bucket s0 = []"
    by (simp_all add: s0_def m0_def submit_test_job_def sqs_send_message_def
        init_coordinator_def str_nat_digits Let_def)
  have s1: "queue s1 = [m1]" "next_message s1 = 2" "sent s1 = [job, job\<lparr>retry_count := 1\<rparr>]"
    "bucket s1 = []"
    using failing_delivery_requeues [of e1 job "''msg-0''" s0] f1 fresh budget s0
    by (simp_all add: s1_def m0_def m1_def str_nat_digits)
  have s2: "queue s2 = [m2]" "next_message s2 = 3"
    "sent s2 = [job, job\<lparr>retry_count := 1\<rparr>, job\<lparr>retry_count := 2\<rparr>]" "bucket s2 = []"
    using failing_delivery_requeues [of e2 "job\<lparr>retry_count := 1\<rparr>" "''msg-1''" s1] f2 budget s1
    by (simp_all add: s2_def m1_def m2_def str_nat_digits)
  have s3: "queue s3 = [m3]" "next_message s3 = 4"
    "sent s3 = [job, job\<lparr>retry_count := 1\<rparr>, job\<lparr>retry_count := 2\<rparr>, job\<lparr>retry_count := 3\<rparr>]"
    "bucket s3 = []"
    using failing_delivery_requeues [of e3 "job\<lparr>retry_count := 2\<rparr>" "''msg-2''" s2] f3 budget s2
    by (simp_all add: s3_def m2_def m3_def str_nat_digits)
  have "consume ([e1, e2, e3] @ later) s0 = consume later s3"
    by (simp add: s0(1) s1(1) s2(1) s1_def [symmetric] s2_def [symmetric] s3_def [symmetric])
  then show ?thesis
    using s3 unfolding s0_def m3_def by blast
qed

text \<open>
  Claim C2, amended. A job submitted with \<open>retry_count = 0\<close> and \<open>max_retries = 3\<close>
  whose deliveries all fail is sent again three times, with the retry counts 1, 2 and 3;
  its fourth failure stores the one failed result and empties the queue, and no later
  delivery sends it again.
\<close>

theorem fourth_failure_is_terminal:
  assumes fresh: "retry_count job = 0" and budget: "max_retries job = 3"
    and f1: "processing_fails e1" and f2: "processing_fails e2"
    and f3: "processing_fails e3" and f4: "processing_fails e4"
  shows "sent (consume ([e1, e2, e3, e4] @ later) (snd (submit_test_job None job init_coordinator)))
           = [job, job\<lparr>retry_count := 1\<rparr>, job\<lparr>retry_count := 2\<rparr>, job\<lparr>retry_count := 3\<rparr>]
       \<and> queue (consume ([e1, e2, e3, e4] @ later) (snd (submit_test_job None job init_coordinator)))
           = []
       \<and> (\<exists>e. bucket (consume ([e1, e2, e3, e4] @ later)
                        (snd (submit_test_job None job init_coordinator)))
              = [(''test-results/'' @ today e4 @ ''/'' @ ident job @ ''.json'',
                  failure_result (now e4) (job\<lparr>retry_count := 3\<rparr>) e)])"
proof -
  let ?m3 = "\<lparr>ReceiptHandle = ''msg-3'', MessageBody = Json (job\<lparr>retry_count := 3\<rparr>)\<rparr>"
  obtain s3 where run:
      "consume ([e1, e2, e3] @ (e4 # later)) (snd (submit_test_job None job init_coordinator))
         = consume (e4 # later) s3"
    and s3: "queue s3 = [?m3]"
      "sent s3 = [job, job\<lparr>retry_count := 1\<rparr>, job\<lparr>retry_count := 2\<rparr>, job\<lparr>retry_count := 3\<rparr>]"
      "bucket s3 = []"
    using three_failures_requeue [OF fresh budget f1 f2 f3, of "e4 # later"] by blast
  define s4 where "s4 = process_single_job e4 ?m3 s3"
  have s4: "queue s4 = []" "sent s4 = sent s3"
    "\<exists>e. bucket s4 = [(''test-results/'' @ today e4 @ ''/'' @ ident job @ ''.json'',
                        failure_result (now e4) (job\<lparr>retry_count := 3\<rparr>) e)]"
    using failing_delivery_gives_up [of e4 "job\<lparr>retry_count := 3\<rparr>" s3 "''msg-3''"] f4 budget s3
    by (simp_all add: s4_def)
  have "consume (e4 # later) s3 = consume later s4"
    by (simp add: s3(1) s4_def)
  then have "consume ([e1, e2, e3, e4] @ later) (snd (submit_test_job None job init_coordinator)) = s4"
    using run by (simp add: consume_empty_queue s4(1))
  then show ?thesis
    using s4 s3(2) by simp
qed

lemma backend_down_fails: "processing_fails backend_down"
  by (simp add: processing_fails_def backend_down_def)

text \<open>
  The scenario: the job of the constructor, under a backend that is down four times.
\<close>

theorem fourth_failure_is_terminal_witness:
  "retry_count new_job = 0 \<and> max_retries new_job = 3 \<and> processing_fails backend_down
   \<and> sent (consume ([backend_down, backend_down, backend_down, backend_down] @ [])
             (snd (submit_test_job None new_job init_coordinator)))
       = [new_job, new_job\<lparr>retry_count := 1\<rparr>, new_job\<lparr>retry_count := 2\<rparr>,
          new_job\<lparr>retry_count := 3\<rparr>]
   \<and> queue (consume ([backend_down, backend_down, backend_down, backend_down] @ [])
              (snd (submit_test_job None new_job init_coordinator))) = []
   \<and> (\<exists>e. bucket (consume ([backend_down, backend_down, backend_down, backend_down] @ [])
                     (snd (submit_test_job None new_job init_coordinator)))
          = [(''test-results/'' @ today backend_down @ ''/'' @ ident new_job @ ''.json'',
              failure_result (now backend_down) (new_job\<lparr>retry_count := 3\<rparr>) e)])"
proof -
  have fresh: "retry_count new_job = 0" and budget: "max_retries new_job = 3"
    by (simp_all add: new_job_def)
  show ?thesis
    using fourth_failure_is_terminal [OF fresh budget backend_down_fails backend_down_fails
        backend_down_fails backend_down_fails, of "[]"]
      fresh budget backend_down_fails
    by blast
qed

text \<open>
  Claim C2, as stated, fails: after three failures of the scenario's job no result is
  stored, and the third failure has sent the job a third time, with \<open>retry_count = 3\<close>.
\<close>

theorem three_failures_counterexample:
  "bucket (consume [backend_down, backend_down, backend_down]
             (snd (submit_test_job None new_job init_coordinator))) = []
   \<and> map retry_count (sent (consume [backend_down, backend_down, backend_down]
                               (snd (submit_test_job None new_job init_coordinator))))
       = [0, 1, 2, 3]"
proof -
  have fresh: "retry_count new_job = 0" and budget: "max_retries new_job = 3"
    by (simp_all add: new_job_def)
  show ?thesis
    using three_failures_requeue [OF fresh budget backend_down_fails backend_down_fails
        backend_down_fails, of "[]"] fresh
    by auto
qed

subsection \<open>Batch submission\<close>

lemma track_successful_known:
  "list_all (\<lambda>a. fst a \<in> set (map ident batch)) succ \<Longrightarrow>
   \<exists>s'. track_successful batch succ ids s = (Returned (ids @ map snd succ), s')
        \<and> batch_calls s' = batch_calls s \<and> errors_logged s' = errors_logged s"
proof (induction succ arbitrary: ids s)
  case Nil
  then show ?case by simp
next
  case (Cons a succ)
  obtain jid mid where a: "a = (jid, mid)" by (cases a)
  from Cons.prems a have "jid \<in> ident ` set batch" by simp
  then obtain job where found: "find (\<lambda>j. ident j = jid) batch = Some job"
    by (cases "find (\<lambda>j. ident j = jid) batch") (auto simp: find_None_iff)
  from Cons.prems have rest: "list_all (\<lambda>a. fst a \<in> set (map ident batch)) succ" by simp
  show ?case
    using Cons.IH [OF rest, of "ids @ [mid]" "s\<lparr>active_jobs := (active_jobs s)(jid \<mapsto> job)\<rparr>"]
    by (simp add: a found)
qed

lemma log_failed_fields [simp]:
  "batch_calls (log_failed fs s) = batch_calls s"
  "errors_logged (log_failed fs s) = errors_logged s @ map failure_line fs"
  by (simp_all add: log_failed_def)

lemma submit_batches_answers:
  "answers q (length (batch_calls s)) batches \<Longrightarrow>
   \<exists>s'. submit_batches q batches ids s
          = (Returned (ids @ reported_ids q (length (batch_calls s)) batches), s')
        \<and> batch_calls s' = batch_calls s @ map (map entry_of) batches
        \<and> errors_logged s' = errors_logged s @ reported_failures q (length (batch_calls s)) batches"
proof (induction batches arbitrary: ids s)
  case Nil
  then show ?case by simp
next
  case (Cons batch rest)
  let ?n = "length (batch_calls s)"
  let ?entries = "map entry_of batch"
  from Cons.prems obtain r where r: "q ?n ?entries = Returned r"
    and known: "list_all (\<lambda>a. fst a \<in> set (map ident batch)) (Successful r)"
    and later: "answers q (Suc ?n) rest"
    by (auto split: outcome.splits)
  let ?s1' = "s\<lparr>batch_calls := batch_calls s @ [?entries],
                 queue := queue s @ accepted ?entries r\<rparr>"
  obtain s2 where s2: "track_successful batch (Successful r) ids ?s1'
        = (Returned (ids @ map snd (Successful r)), s2)"
    and calls2: "batch_calls s2 = batch_calls ?s1'" and log2: "errors_logged s2 = errors_logged ?s1'"
    using track_successful_known [OF known, of ids ?s1'] by blast
  let ?s3 = "log_failed (Failed r) s2"
  have n3: "length (batch_calls ?s3) = Suc ?n" by (simp add: calls2)
  obtain s' where run: "submit_batches q rest (ids @ map snd (Successful r)) ?s3
        = (Returned ((ids @ map snd (Successful r)) @ reported_ids q (Suc ?n) rest), s')"
    and calls: "batch_calls s' = batch_calls ?s3 @ map (map entry_of) rest"
    and logs: "errors_logged s' = errors_logged ?s3 @ reported_failures q (Suc ?n) rest"
    using Cons.IH [of ?s3 "ids @ map snd (Successful r)"] later n3 by auto
  have "submit_batches q (batch # rest) ids s
      = submit_batches q rest (ids @ map snd (Successful r)) ?s3"
    by (simp add: Let_def r s2)
  then show ?case
    using run calls logs by (simp add: r calls2 log2)
qed

lemma submit_batches_raises:
  "k < length batches \<Longrightarrow>
   answers q (length (batch_calls s)) (take k batches) \<Longrightarrow>
   q (length (batch_calls s) + k) (map entry_of (batches ! k)) = Raised e \<Longrightarrow>
   \<exists>s'. submit_batches q batches ids s = (Raised e, s')
        \<and> batch_calls s' = batch_calls s @ map (map entry_of) (take (Suc k) batches)"
proof (induction batches arbitrary: ids s k)
  case Nil
  then show ?case by simp
next
  case (Cons batch rest)
  let ?n = "length (batch_calls s)"
  let ?entries = "map entry_of batch"
  show ?case
  proof (cases k)
    case 0
    then show ?thesis using Cons.prems by (simp add: Let_def)
  next
    case (Suc j)
    from Cons.prems Suc obtain r where r: "q ?n ?entries = Returned r"
      and known: "list_all (\<lambda>a. fst a \<in> set (map ident batch)) (Successful r)"
      and later: "answers q (Suc ?n) (take j rest)"
      by (auto split: outcome.splits)
    let ?s1' = "s\<lparr>batch_calls := batch_calls s @ [?entries],
                   queue := queue s @ accepted ?entries r\<rparr>"
    obtain s2 where s2: "track_successful batch (Successful r) ids ?s1'
          = (Returned (ids @ map snd (Successful r)), s2)"
      and calls2: "batch_calls s2 = batch_calls ?s1'"
      using track_successful_known [OF known, of ids ?s1'] by blast
    let ?s3 = "log_failed (Failed r) s2"
    have n3: "length (batch_calls ?s3) = Suc ?n" by (simp add: calls2)
    have j: "j < length rest" using Cons.prems Suc by simp
    have raise: "q (length (batch_calls ?s3) + j) (map entry_of (rest ! j)) = Raised e"
      using Cons.prems(3) Suc by (simp add: calls2)
    obtain s' where run: "submit_batches q rest (ids @ map snd (Successful r)) ?s3 = (Raised e, s')"
      and calls: "batch_calls s' = batch_calls ?s3 @ map (map entry_of) (take (Suc j) rest)"
      using Cons.IH [OF j _ raise, of "ids @ map snd (Successful r)"] later n3 by auto
    have "submit_batches q (batch # rest) ids s
        = submit_batches q rest (ids @ map snd (Successful r)) ?s3"
      by (simp add: Let_def r s2)
    then show ?thesis
      using run calls Suc by (simp add: calls2)
  qed
qed

lemma chunks_of_step:
  "0 < n \<Longrightarrow> xs \<noteq> [] \<Longrightarrow> chunks_of n xs = take n xs # chunks_of n (drop n xs)"
  by (simp add: chunks_of.simps [of n xs])

lemma chunks_of_Nil [simp]: "chunks_of n [] = []"
  by (simp add: chunks_of.simps)

lemma chunks_of_25: "length xs = 25 \<Longrightarrow> map length (chunks_of 10 xs) = [10, 10, 5]"
proof -
  assume len: "length xs = 25"
  have a: "chunks_of 10 xs = take 10 xs # chunks_of 10 (drop 10 xs)"
    using len by (intro chunks_of_step) auto
  have b: "chunks_of 10 (drop 10 xs) = take 10 (drop 10 xs) # chunks_of 10 (drop 10 (drop 10 xs))"
    using len by (intro chunks_of_step) auto
  have c: "chunks_of 10 (drop 10 (drop 10 xs))
      = take 10 (drop 10 (drop 10 xs)) # chunks_of 10 (drop 10 (drop 10 (drop 10 xs)))"
    using len by (intro chunks_of_step) auto
  have d: "drop 10 (drop 10 (drop 10 xs)) = []" using len by simp
  show ?thesis unfolding a b c d using len by simp
qed


lemma answers_accept_all: "answers accept_all k batches"
  by (induction batches arbitrary: k) (auto simp: accept_all_def entry_of_def list_all_iff)

lemma answers_reject_all: "answers reject_all k batches"
  by (induction batches arbitrary: k) (auto simp: reject_all_def)

lemma length_numbered_jobs: "length (numbered_jobs n) = n"
  by (simp add: numbered_jobs_def)

text \<open>
  Claim C8. A batch of 25 jobs is cut into chunks of 10, and where every call of the
  queue answers (with a response that names only jobs of its chunk) the submission
  returns after exactly three \<^verbatim>\<open>send_message_batch\<close> calls, of 10, 10 and 5 entries, in
  that order.
\<close>

theorem batch_of_25_three_calls:
  assumes "length jobs = 25" and "answers q (length (batch_calls s)) (chunks_of 10 jobs)"
  shows "\<exists>ids s'. submit_batch_jobs q jobs s = (Returned ids, s')
           \<and> map length (drop (length (batch_calls s)) (batch_calls s')) = [10, 10, 5]"
proof -
  obtain s' where run: "submit_batches q (chunks_of 10 jobs) [] s
        = (Returned ([] @ reported_ids q (length (batch_calls s)) (chunks_of 10 jobs)), s')"
    and calls: "batch_calls s' = batch_calls s @ map (map entry_of) (chunks_of 10 jobs)"
    using submit_batches_answers [OF assms(2), of "[]"] by blast
  have "map length (map (map entry_of) (chunks_of 10 jobs)) = [10, 10, 5]"
    using chunks_of_25 [OF assms(1)] by (simp add: comp_def)
  then show ?thesis
    using run calls by (simp add: submit_batch_jobs_def)
qed

text \<open>
  The scenario: 25 numbered jobs at a fresh coordinator, with a queue that accepts every entry.
\<close>

theorem batch_of_25_three_calls_witness:
  "length (numbered_jobs 25) = 25
   \<and> answers accept_all (length (batch_calls init_coordinator)) (chunks_of 10 (numbered_jobs 25))
   \<and> (\<exists>ids s'. submit_batch_jobs accept_all (numbered_jobs 25) init_coordinator = (Returned ids, s')
         \<and> map length (drop (length (batch_calls init_coordinator)) (batch_calls s')) = [10, 10, 5])"
  using batch_of_25_three_calls [of "numbered_jobs 25" accept_all init_coordinator]
    length_numbered_jobs [of 25]
    answers_accept_all [of "length (batch_calls init_coordinator)" "chunks_of 10 (numbered_jobs 25)"]
  by blast

text \<open>
  Claim C6, amended. The jobs are sent in chunks of 10. While every call of the queue
  answers, the run goes through all the chunks and returns the message ids that the
  responses report, chunk by chunk; the entries a response reports as failed are logged,
  one line each, and never raised, even when every entry of every chunk fails. A call
  that raises ends the run at once: its error is raised again, the chunks after it are
  not sent, and no message id is returned.
\<close>

theorem batch_partial_failure:
  "(answers q (length (batch_calls s)) (chunks_of 10 jobs) \<longrightarrow>
      (\<exists>s'. submit_batch_jobs q jobs s
               = (Returned (reported_ids q (length (batch_calls s)) (chunks_of 10 jobs)), s')
           \<and> batch_calls s' = batch_calls s @ map (map entry_of) (chunks_of 10 jobs)
           \<and> errors_logged s'
               = errors_logged s @ reported_failures q (length (batch_calls s)) (chunks_of 10 jobs)))
   \<and> (k < length (chunks_of 10 jobs)
        \<and> answers q (length (batch_calls s)) (take k (chunks_of 10 jobs))
        \<and> q (length (batch_calls s) + k) (map entry_of (chunks_of 10 jobs ! k)) = Raised e \<longrightarrow>
      (\<exists>s'. submit_batch_jobs q jobs s = (Raised e, s')
           \<and> batch_calls s'
               = batch_calls s @ map (map entry_of) (take (Suc k) (chunks_of 10 jobs))))"
  using submit_batches_answers [of q s "chunks_of 10 jobs" "[]"]
    submit_batches_raises [of k "chunks_of 10 jobs" q s e "[]"]
  by (simp add: submit_batch_jobs_def)

lemma scenario_chunks: "length (chunks_of 10 (numbered_jobs 25)) = 3"
  using chunks_of_25 [OF length_numbered_jobs, THEN arg_cong, of length] by simp

lemma second_call_scene:
  "answers second_call_raises 0 (take 1 (chunks_of 10 (numbered_jobs 25)))"
  "second_call_raises (0 + 1) (map entry_of (chunks_of 10 (numbered_jobs 25) ! 1))
     = Raised ''ServiceUnavailable''"
  by code_simp+

text \<open>
  Both halves on 25 numbered jobs: a queue that rejects every entry, under which the run
  returns; and a queue whose second call raises, under which the third chunk is not sent.
\<close>

theorem batch_partial_failure_witness:
  "answers reject_all (length (batch_calls init_coordinator)) (chunks_of 10 (numbered_jobs 25))
   \<and> (\<exists>s'. submit_batch_jobs reject_all (numbered_jobs 25) init_coordinator
              = (Returned (reported_ids reject_all (length (batch_calls init_coordinator))
                             (chunks_of 10 (numbered_jobs 25))), s')
          \<and> batch_calls s'
              = batch_calls init_coordinator @ map (map entry_of) (chunks_of 10 (numbered_jobs 25))
          \<and> errors_logged s'
              = errors_logged init_coordinator
                @ reported_failures reject_all (length (batch_calls init_coordinator))
                    (chunks_of 10 (numbered_jobs 25)))
   \<and> 1 < length (chunks_of 10 (numbered_jobs 25))
   \<and> answers second_call_raises 0 (take 1 (chunks_of 10 (numbered_jobs 25)))
   \<and> second_call_raises (0 + 1) (map entry_of (chunks_of 10 (numbered_jobs 25) ! 1))
       = Raised ''ServiceUnavailable''
   \<and> (\<exists>s'. submit_batch_jobs second_call_raises (numbered_jobs 25) init_coordinator
              = (Raised ''ServiceUnavailable'', s')
          \<and> batch_calls s'
              = batch_calls init_coordinator
                @ map (map entry_of) (take (Suc 1) (chunks_of 10 (numbered_jobs 25))))"
proof -
  have empty: "length (batch_calls init_coordinator) = 0"
    by (simp add: init_coordinator_def)
  have first: "answers reject_all (length (batch_calls init_coordinator))
      (chunks_of 10 (numbered_jobs 25))"
    by (rule answers_reject_all)
  have second: "1 < length (chunks_of 10 (numbered_jobs 25))
      \<and> answers second_call_raises (length (batch_calls init_coordinator))
          (take 1 (chunks_of 10 (numbered_jobs 25)))
      \<and> second_call_raises (length (batch_calls init_coordinator) + 1)
          (map entry_of (chunks_of 10 (numbered_jobs 25) ! 1)) = Raised ''ServiceUnavailable''"
    using second_call_scene by (simp add: empty scenario_chunks)
  show ?thesis
    using batch_partial_failure [of reject_all init_coordinator "numbered_jobs 25", THEN conjunct1,
        rule_format, OF first]
      batch_partial_failure [of second_call_raises init_coordinator "numbered_jobs 25" 1
        "''ServiceUnavailable''", THEN conjunct2, rule_format, OF second]
      first second
    by (simp add: empty)
qed

text \<open>
  Claim C6, as stated, fails: with 25 jobs and a queue whose second call raises, the
  submission raises although the first chunk was accepted (its jobs are in the active
  map), and the third chunk is never sent: two calls are made, not three.
\<close>

theorem raising_chunk_counterexample:
  "fst (submit_batch_jobs second_call_raises (numbered_jobs 25) init_coordinator)
     = Raised ''ServiceUnavailable''
   \<and> map length (batch_calls (snd (submit_batch_jobs second_call_raises (numbered_jobs 25)
                                     init_coordinator))) = [10, 10]
   \<and> map_option ident (active_jobs (snd (submit_batch_jobs second_call_raises (numbered_jobs 25)
                                            init_coordinator)) ''job-0'') = Some ''job-0''"
  by code_simp

subsection \<open>The waits of the executor\<close>




lemma settle_zip:
  "map (\<lambda>(job, r). settle env job r) (zip batch (map f batch))
     = map (\<lambda>job. settle env job (f job)) batch"
  by (induction batch) simp_all

lemma files_loop_no_callback:
  "files_loop env cfg None n batches rs
     = Returned (rs @ map (\<lambda>job. settle env job (wait_for env cfg job)) (concat batches))"
  by (induction batches arbitrary: rs) (simp_all add: Let_def settle_zip)

lemma concat_chunks_of: "0 < n \<Longrightarrow> concat (chunks_of n xs) = xs"
proof (induction n xs rule: chunks_of.induct)
  case (1 n xs)
  show ?case
  proof (cases "xs = []")
    case True
    then show ?thesis by simp
  next
    case False
    then show ?thesis using 1 by (simp add: chunks_of_step)
  qed
qed

lemma parallel_files_no_callback:
  "0 < batch_size cfg \<Longrightarrow>
   execute_parallel_files env cfg jobs None
     = Returned (map (\<lambda>job. settle env job (wait_for env cfg job)) jobs)"
  by (simp add: execute_parallel_files_def files_loop_no_callback concat_chunks_of)

lemma collect_no_callback: "collect None n i rs = Returned rs"
  by (induction rs arbitrary: i) simp_all

lemma parallel_functions_no_callback:
  "0 < max_workers cfg \<Longrightarrow>
   execute_parallel_functions env cfg jobs None
     = Some (Returned (map (execute_single_job env cfg)
                          (sort_key (\<lambda>job. finish_order env (ident job)) jobs)))"
  by (simp add: execute_parallel_functions_def collect_no_callback)




lemma config_scene:
  "strategy (config s) = s" "timeout_seconds (config s) = 300" "batch_size (config s) = 10"
  "max_workers (config s) = 4"
  by (simp_all add: config_def)



subsection \<open>The priority tiers\<close>

lemma foldl_add_to_group:
  "foldl add_to_group g jobs p =
     (case g p of
        None \<Rightarrow> (if filter (\<lambda>j. priority j = p) jobs = [] then None
                  else Some (filter (\<lambda>j. priority j = p) jobs))
      | Some js \<Rightarrow> Some (js @ filter (\<lambda>j. priority j = p) jobs))"
  by (induction jobs arbitrary: g) (auto simp: add_to_group_def split: option.splits)

lemma group_by_priority_tier:
  "group_by_priority jobs p =
     (if filter (\<lambda>j. priority j = p) jobs = [] then None
      else Some (filter (\<lambda>j. priority j = p) jobs))"
  by (simp add: group_by_priority_def foldl_add_to_group)

lemma length_sequential_loop_no_callback:
  "length (sequential_loop env cfg None n i jobs) = length jobs"
  by (induction jobs arbitrary: i) (auto split: outcome.splits)

lemma execute_sequential_Nil [simp]: "execute_sequential env cfg [] cb = []"
  by (simp add: execute_sequential_def)

lemma hybrid_tiers:
  assumes "0 < batch_size cfg" and "0 < max_workers cfg"
  shows "execute_hybrid env cfg jobs cb =
     Some (Returned
       (execute_sequential env cfg (filter (\<lambda>j. priority j = 1) jobs) None
        @ map (\<lambda>job. settle env job (wait_for env cfg job)) (filter (\<lambda>j. priority j = 2) jobs)
        @ map (execute_single_job env cfg)
            (sort_key (\<lambda>job. finish_order env (ident job)) (filter (\<lambda>j. priority j = 3) jobs))))"
  using assms
  by (simp add: execute_hybrid_def group_by_priority_tier parallel_files_no_callback
      parallel_functions_no_callback Let_def)

lemma tiers_of_tiered:
  "filter (\<lambda>j. tiered j \<and> priority j = 1) jobs = filter (\<lambda>j. priority j = 1) jobs"
  "filter (\<lambda>j. tiered j \<and> priority j = 2) jobs = filter (\<lambda>j. priority j = 2) jobs"
  "filter (\<lambda>j. tiered j \<and> priority j = 3) jobs = filter (\<lambda>j. priority j = 3) jobs"
  by (induction jobs) (auto simp: tiered_def)

lemma tiers_count:
  "length (filter (\<lambda>j. priority j = 1) jobs) + length (filter (\<lambda>j. priority j = 2) jobs)
   + length (filter (\<lambda>j. priority j = 3) jobs) = length (filter tiered jobs)"
  by (induction jobs) (auto simp: tiered_def)

lemma hybrid_without_others:
  assumes "0 < batch_size cfg" and "0 < max_workers cfg"
  shows "execute_hybrid env cfg (filter tiered jobs) cb = execute_hybrid env cfg jobs cb"
  by (simp add: hybrid_tiers [OF assms] tiers_of_tiered)

lemma hybrid_length:
  assumes "0 < batch_size cfg" and "0 < max_workers cfg"
  shows "\<exists>rs. execute_hybrid env cfg jobs cb = Some (Returned rs)
            \<and> length rs = length (filter tiered jobs)"
  using tiers_count [of jobs]
  by (simp add: hybrid_tiers [OF assms] execute_sequential_def length_sequential_loop_no_callback)

lemma success_partition:
  "length (filter (\<lambda>r. success r) rs) + length (filter (\<lambda>r. \<not> success r) rs) = length rs"
  by (induction rs) auto

text \<open>
  Claim C10. Under the hybrid strategy (with a positive batch size and a positive number
  of workers) the execution returns; it counts every job in \<open>total_jobs\<close>, but it has
  one result for each job of priority 1, 2 or 3 and none for any other job, so that the
  completed and the failed jobs add up to the number of the jobs with a tier; and but for
  \<open>total_jobs\<close> the execution result is the one of the run without the other jobs.
\<close>

theorem hybrid_drops_untiered_jobs:
  assumes "strategy cfg = HYBRID" and "0 < batch_size cfg" and "0 < max_workers cfg"
  shows "\<exists>er. execute_test_suite env cfg jobs cb = Some (Returned er)
           \<and> total_jobs er = length jobs
           \<and> length (results er) = length (filter tiered jobs)
           \<and> n_completed_jobs er + failed_jobs er = length (filter tiered jobs)
           \<and> execute_test_suite env cfg (filter tiered jobs) cb
               = Some (Returned (er\<lparr>total_jobs := length (filter tiered jobs)\<rparr>))"
proof -
  obtain rs where run: "execute_hybrid env cfg jobs cb = Some (Returned rs)"
    and len: "length rs = length (filter tiered jobs)"
    using hybrid_length [OF assms(2,3)] by blast
  have same: "execute_hybrid env cfg (filter tiered jobs) cb = Some (Returned rs)"
    using run by (simp add: hybrid_without_others [OF assms(2,3)])
  have "execute_test_suite env cfg jobs cb = Some (Returned (metrics env jobs rs))"
    by (simp add: execute_test_suite_def run_strategy_def assms(1) run)
  moreover have "execute_test_suite env cfg (filter tiered jobs) cb
      = Some (Returned ((metrics env jobs rs)\<lparr>total_jobs := length (filter tiered jobs)\<rparr>))"
    by (simp add: execute_test_suite_def run_strategy_def assms(1) same metrics_def Let_def)
  moreover have "total_jobs (metrics env jobs rs) = length jobs"
    "length (results (metrics env jobs rs)) = length (filter tiered jobs)"
    "n_completed_jobs (metrics env jobs rs) + failed_jobs (metrics env jobs rs)
       = length (filter tiered jobs)"
    using len success_partition [of rs] by (simp_all add: metrics_def Let_def)
  ultimately show ?thesis by blast
qed

lemma mixed_jobs_counts: "length mixed_jobs = 2" "length (filter tiered mixed_jobs) = 1"
  by (simp_all add: mixed_jobs_def tiered_def new_job_def)

text \<open>
  Two jobs, one of priority 1 and one of priority 5: \<open>total_jobs\<close> is 2, while the
  completed and the failed jobs add up to 1.
\<close>

theorem hybrid_drops_untiered_jobs_witness:
  "strategy (config HYBRID) = HYBRID \<and> 0 < batch_size (config HYBRID)
   \<and> 0 < max_workers (config HYBRID)
   \<and> (\<exists>er. execute_test_suite never_completes (config HYBRID) mixed_jobs None = Some (Returned er)
         \<and> total_jobs er = 2
         \<and> length (results er) = 1
         \<and> n_completed_jobs er + failed_jobs er = 1
         \<and> execute_test_suite never_completes (config HYBRID) (filter tiered mixed_jobs) None
             = Some (Returned (er\<lparr>total_jobs := 1\<rparr>)))"
proof -
  have a: "strategy (config HYBRID) = HYBRID" and b: "0 < batch_size (config HYBRID)"
    and c: "0 < max_workers (config HYBRID)"
    by (simp_all add: config_scene)
  show ?thesis
    using hybrid_drops_untiered_jobs [OF a b c, of never_completes mixed_jobs None] a b c
    by (simp add: mixed_jobs_counts)
qed

end
